theory Spec2Isabelle
  imports Complex_Main "HOL-Library.Multiset"
begin

section \<open>Python strings\<close>

text \<open>
  The two scripts (\<^verbatim>\<open>excel_a_csv.py\<close>, \<^verbatim>\<open>actualiza_datos_2025.py\<close>) work on Python
  \<^verbatim>\<open>str\<close> values. A string is modelled as a list of code points below 256 (Latin-1,
  which holds the Spanish labels of the sheets); \<^typ>\<open>char\<close> is the code point.
  The functions of this section are the string methods the scripts call, with the
  behaviour CPython gives them on such strings.
\<close>

definition isspace :: "char \<Rightarrow> bool" where
  \<comment> \<open>\<^verbatim>\<open>str.isspace\<close> on one code point: TAB, LF, VT, FF, CR, FS, GS, RS, US, space,
      NEL (0x85) and the no-break space (0xA0).\<close>
  "isspace c = (of_char c \<in> {9, 10, 11, 12, 13, 28, 29, 30, 31, 32, 133, 160 :: nat})"

definition lower_char :: "char \<Rightarrow> char" where
  \<comment> \<open>\<^verbatim>\<open>str.lower\<close> on one code point: A-Z and the Latin-1 capitals 0xC0-0xDE
      (0xD7, the multiplication sign, apart) move up by 32.\<close>
  "lower_char c =
     (let n = (of_char c :: nat)
      in if (65 \<le> n \<and> n \<le> 90) \<or> (192 \<le> n \<and> n \<le> 214) \<or> (216 \<le> n \<and> n \<le> 222)
         then char_of (n + 32) else c)"

definition lower :: "string \<Rightarrow> string" where
  "lower s = map lower_char s"

definition strip :: "string \<Rightarrow> string" where
  \<comment> \<open>\<^verbatim>\<open>s.strip()\<close>: white space removed at both ends.\<close>
  "strip s = rev (dropWhile isspace (rev (dropWhile isspace s)))"

fun split_from :: "string \<Rightarrow> string \<Rightarrow> string list" where
  \<comment> \<open>The scan of \<^verbatim>\<open>s.split()\<close>; the first argument is the word read so far.\<close>
  "split_from w [] = (if w = [] then [] else [w])"
| "split_from w (c # cs) =
     (if isspace c then (if w = [] then split_from [] cs else w # split_from [] cs)
      else split_from (w @ [c]) cs)"

definition split :: "string \<Rightarrow> string list" where
  \<comment> \<open>\<^verbatim>\<open>s.split()\<close>: the maximal runs of characters that are not white space.\<close>
  "split s = split_from [] s"

fun join :: "string \<Rightarrow> string list \<Rightarrow> string" where
  \<comment> \<open>\<^verbatim>\<open>sep.join(ws)\<close>\<close>
  "join sep [] = []"
| "join sep [w] = w"
| "join sep (w # v # ws) = w @ sep @ join sep (v # ws)"

definition startswith :: "string \<Rightarrow> string \<Rightarrow> bool" where
  \<comment> \<open>\<^verbatim>\<open>s.startswith(p)\<close>\<close>
  "startswith s p = (take (length p) s = p)"

fun contains :: "string \<Rightarrow> string \<Rightarrow> bool" where
  \<comment> \<open>\<^verbatim>\<open>p in s\<close>: \<open>p\<close> occurs in \<open>s\<close> as a substring.\<close>
  "contains [] p = (p = [])"
| "contains (c # cs) p = (startswith (c # cs) p \<or> contains cs p)"

function replace :: "string \<Rightarrow> string \<Rightarrow> string \<Rightarrow> string" where
  \<comment> \<open>\<^verbatim>\<open>s.replace(old, new)\<close> (and pandas' \<^verbatim>\<open>.str.replace(old, new, regex=False)\<close> on
      one cell): the occurrences of \<open>old\<close> found from the left, none overlapping
      another, are each replaced by \<open>new\<close>. With an empty \<open>old\<close> Python puts
      \<open>new\<close> before every character and at the end.\<close>
  "replace old new s =
     (if old = [] then new @ concat (map (\<lambda>c. c # new) s)
      else if s = [] then []
      else if startswith s old then new @ replace old new (drop (length old) s)
      else hd s # replace old new (tl s))"
  by pat_completeness auto
termination
  by (relation "measure (\<lambda>(old, new, s). length s)") auto

declare replace.simps [simp del]

definition palabra :: "string \<Rightarrow> bool" where
  \<comment> \<open>A word: not empty, and free of white space.\<close>
  "palabra w = (w \<noteq> [] \<and> list_all (\<lambda>c. \<not> isspace c) w)"

section \<open>Cells, labels and the column normalizer\<close>

text \<open>
  A cell of a sheet, or a column label, is a Python value: a string, a number, a
  timestamp, or the missing-value marker \<^verbatim>\<open>nan\<close>. Numbers are exact rationals
  (the rounding of floating point, and its infinities, are outside this model);
  a timestamp is a point on a line, here an integer.
\<close>

type_synonym timestamp = int

datatype pyval = Str string | Numero rat | Timestamp timestamp | NaN

fun normaliza_col :: "pyval \<Rightarrow> pyval" where
  \<comment> \<open>\<^verbatim>\<open>normaliza_col\<close>, the same in both scripts: a value that is not a string
      is returned as it is.\<close>
  "normaliza_col (Str col) =
     Str (lower (join '' '' (split (strip (replace ''\<newline>'' '' '' col)))))"
| "normaliza_col col = col"

section \<open>The pandas calls\<close>

text \<open>
  The scripts hand the parsing of dates and numbers to pandas. What pandas does on
  the inputs the sheets are made of is written out below; the rest of the library
  (the spellings of dates it reads from strings and numbers, the further spellings of
  numbers it accepts, how it prints a number or a timestamp) enters as a parameter,
  so that every theorem holds whatever pandas does there.
\<close>

record pandas =
  parse_fecha :: "pyval \<Rightarrow> timestamp option"
  parse_numero :: "string \<Rightarrow> rat option"
  str_otro :: "pyval \<Rightarrow> string"

datatype error =
    HeaderNotFound
  | MissingColumns "string list"
  | AttributeError
  | ErrorPandas

text \<open>
  \<^const>\<open>HeaderNotFound\<close> is the \<^verbatim>\<open>ValueError\<close> of \<^verbatim>\<open>detecta_header\<close>,
  \<^const>\<open>MissingColumns\<close> the \<^verbatim>\<open>KeyError\<close> that lists the absent labels,
  \<^const>\<open>AttributeError\<close> what Python raises for \<^verbatim>\<open>c.startswith\<close> on a label that is
  not a string, and \<^const>\<open>ErrorPandas\<close> the exception pandas raises once a required
  label names two columns (\<^verbatim>\<open>df[col]\<close> is then a table, which has neither
  \<^verbatim>\<open>.str\<close> nor a reading as dates).
\<close>

definition to_datetime :: "pandas \<Rightarrow> pyval \<Rightarrow> timestamp option" where
  \<comment> \<open>\<^verbatim>\<open>pd.to_datetime(..., errors="coerce")\<close> on one cell: \<open>None\<close> is \<^verbatim>\<open>NaT\<close>.\<close>
  "to_datetime pd v =
     (case v of Timestamp t \<Rightarrow> Some t | NaN \<Rightarrow> None | _ \<Rightarrow> parse_fecha pd v)"

definition astype_str :: "pandas \<Rightarrow> pyval \<Rightarrow> string" where
  \<comment> \<open>\<^verbatim>\<open>.astype(str)\<close> on one cell.\<close>
  "astype_str pd v = (case v of Str s \<Rightarrow> s | NaN \<Rightarrow> ''nan'' | _ \<Rightarrow> str_otro pd v)"

definition isdigit :: "char \<Rightarrow> bool" where
  "isdigit c = (48 \<le> (of_char c :: nat) \<and> (of_char c :: nat) \<le> 57)"

definition decimal :: "string \<Rightarrow> nat" where
  \<comment> \<open>The number a string of digits spells.\<close>
  "decimal s = foldl (\<lambda>n c. 10 * n + (of_char c - 48)) 0 s"

definition to_numeric :: "pandas \<Rightarrow> string \<Rightarrow> rat option" where
  \<comment> \<open>\<^verbatim>\<open>pd.to_numeric(..., errors="coerce")\<close> on one cell: the empty string is
      \<^verbatim>\<open>nan\<close> (\<open>None\<close>), a string of digits is the number it spells.\<close>
  "to_numeric pd s =
     (if s = [] then None
      else if list_all isdigit s then Some (of_nat (decimal s))
      else parse_numero pd s)"

definition fillna :: "rat \<Rightarrow> rat option \<Rightarrow> rat" where
  \<comment> \<open>\<^verbatim>\<open>.fillna(v)\<close> on one cell.\<close>
  "fillna v x = (case x of None \<Rightarrow> v | Some y \<Rightarrow> y)"

text \<open>
  A table is a list of rows, each with its index label. \<^verbatim>\<open>sort_values\<close> orders the
  rows by a column; pandas does not fix the order of rows that agree on it, the
  model keeps them in their former order.
\<close>

definition sort_values :: "('a \<Rightarrow> timestamp) \<Rightarrow> 'a list \<Rightarrow> 'a list" where
  "sort_values f xs = sort_key f xs"

definition reset_index :: "(nat \<times> 'a) list \<Rightarrow> (nat \<times> 'a) list" where
  \<comment> \<open>\<^verbatim>\<open>.reset_index(drop=True)\<close>: the labels become 0, 1, 2, ...\<close>
  "reset_index xs = zip [0..<length xs] (map snd xs)"

section \<open>The sheets\<close>

text \<open>
  \<^verbatim>\<open>xls.parse(sheet, header=None, dtype=str)\<close> gives the raw sheet: rows of cells
  that are strings or missing (\<open>None\<close>). \<^verbatim>\<open>xls.parse(sheet, header=h)\<close> gives the
  table under header row \<open>h\<close>: its column labels and its rows of typed cells. A
  sheet is what these two calls return.
\<close>

record tabla =
  columns :: "pyval list"
  filas :: "pyval list list"

record hoja =
  cruda :: "string option list list"
  con_header :: "nat \<Rightarrow> tabla"

definition celda :: "pyval list \<Rightarrow> nat \<Rightarrow> pyval" where
  \<comment> \<open>The cell of a row in a column; a row shorter than the header is filled with
      \<^verbatim>\<open>nan\<close>, as pandas fills it.\<close>
  "celda row k = (if k < length row then row ! k else NaN)"

fun indice_de :: "'a \<Rightarrow> 'a list \<Rightarrow> nat" where
  "indice_de c [] = 0"
| "indice_de c (x # xs) = (if x = c then 0 else Suc (indice_de c xs))"

definition columna :: "pyval list \<Rightarrow> string \<Rightarrow> pyval list \<Rightarrow> pyval" where
  \<comment> \<open>\<^verbatim>\<open>df[c]\<close> in one row, for a label that names one column.\<close>
  "columna cols c row = celda row (indice_de (Str c) cols)"

section \<open>The header locator\<close>

definition astype_str_cruda :: "string option \<Rightarrow> string" where
  \<comment> \<open>\<^verbatim>\<open>.astype(str)\<close> on a cell of the raw sheet.\<close>
  "astype_str_cruda c = (case c of None \<Rightarrow> ''nan'' | Some s \<Rightarrow> s)"

definition tiene_fecha :: "string option list \<Rightarrow> bool" where
  \<comment> \<open>\<^verbatim>\<open>row.astype(str).str.strip().str.lower().eq("fecha").any()\<close>\<close>
  "tiene_fecha row = list_ex (\<lambda>c. lower (strip (astype_str_cruda c)) = ''fecha'') row"

fun detecta_header_desde :: "nat \<Rightarrow> string option list list \<Rightarrow> error + nat" where
  \<comment> \<open>The loop of \<^verbatim>\<open>detecta_header\<close>, from row \<open>i\<close> on.\<close>
  "detecta_header_desde i [] = Inl HeaderNotFound"
| "detecta_header_desde i (row # rows) =
     (if tiene_fecha row then Inr i else detecta_header_desde (Suc i) rows)"

definition detecta_header :: "string option list list \<Rightarrow> error + nat" where
  "detecta_header df = detecta_header_desde 0 df"

section \<open>The cleaned tables\<close>

record fila_fecha =
  fecha :: timestamp

record gasolinas = fila_fecha +
  gasolina_regular :: "rat option"
  gasolina_superior :: "rat option"

record fila_hoja = gasolinas +
  diesel_alto_azufre :: "rat option"

record fila_2025 = gasolinas +
  diesel_bajo_azufre :: "rat option"
  diesel_ultra_bajo_azufre :: "rat option"

record fila_imp = fila_fecha +
  Regular_Imp :: "rat option"
  Superior_Imp :: "rat option"
  Diesel_Imp :: "rat option"

record fila_combinada = fila_imp +
  Regular_Con :: "rat option"
  Superior_Con :: "rat option"
  Diesel_Con :: "rat option"

record fila_larga = fila_fecha +
  producto :: string
  barriles :: "rat option"
  origen :: string

definition limpia_texto :: "string \<Rightarrow> string" where
  \<comment> \<open>The three \<^verbatim>\<open>.str.replace(..., "", regex=False)\<close> of the loop over the value
      columns, on one cell: commas, then spaces, then \<^verbatim>\<open>--\<close>.\<close>
  "limpia_texto s = replace ''--'' '''' (replace '' '' '''' (replace '','' '''' s))"

definition limpia_numero :: "pandas \<Rightarrow> pyval \<Rightarrow> rat option" where
  \<comment> \<open>The body of the loop over the value columns, on one cell:
      \<^verbatim>\<open>.astype(str)\<close>, the replacements, \<^verbatim>\<open>pd.to_numeric\<close>.\<close>
  "limpia_numero pd c = to_numeric pd (limpia_texto (astype_str pd c))"

definition filas_con_fecha ::
  "pandas \<Rightarrow> (nat \<times> pyval \<times> 'v) list \<Rightarrow> (nat \<times> timestamp \<times> 'v) list" where
  \<comment> \<open>\<^verbatim>\<open>df["fecha"] = pd.to_datetime(df["fecha"], errors="coerce")\<close> and
      \<^verbatim>\<open>df = df[df["fecha"].notna()]\<close>: the rows whose date is \<^verbatim>\<open>NaT\<close> go.\<close>
  "filas_con_fecha pd rows =
     List.map_filter (\<lambda>(i, f, v). map_option (\<lambda>t. (i, t, v)) (to_datetime pd f)) rows"

definition ordena :: "(nat \<times> timestamp \<times> 'v) list \<Rightarrow> (nat \<times> timestamp \<times> 'v) list" where
  \<comment> \<open>\<^verbatim>\<open>df.sort_values("fecha").reset_index(drop=True)\<close>\<close>
  "ordena rows = reset_index (sort_values (\<lambda>(i, t, v). t) rows)"

section \<open>The script \<^verbatim>\<open>excel_a_csv.py\<close>\<close>

definition requeridas :: "string list" where
  "requeridas = [''fecha'', ''gasolina regular'', ''gasolina superior'', ''diesel alto azufre'']"

definition renombra :: "string \<Rightarrow> string" where
  \<comment> \<open>The defensive renaming of one label.\<close>
  "renombra c =
     (if startswith c ''gasolina super'' then ''gasolina superior''
      else if startswith c ''gasolina s'' \<and> contains c ''rior'' then ''gasolina superior''
      else if startswith c ''gasolina regular'' then ''gasolina regular''
      else if startswith c ''diesel alto'' then ''diesel alto azufre''
      else c)"

fun es_str :: "pyval \<Rightarrow> bool" where
  "es_str (Str s) = True"
| "es_str v = False"

fun renombra_col :: "pyval \<Rightarrow> pyval" where
  "renombra_col (Str c) = Str (renombra c)"
| "renombra_col v = v"

definition faltan :: "string list \<Rightarrow> pyval list \<Rightarrow> string list" where
  \<comment> \<open>\<^verbatim>\<open>[c for c in requeridas if c not in df.columns]\<close>\<close>
  "faltan req cols = filter (\<lambda>c. Str c \<notin> set cols) req"

definition duplicadas :: "string list \<Rightarrow> pyval list \<Rightarrow> bool" where
  \<comment> \<open>A required label names more than one column.\<close>
  "duplicadas req cols = list_ex (\<lambda>c. 1 < count_list cols (Str c)) req"

definition selecciona_hoja ::
  "pyval list \<Rightarrow> pyval list list \<Rightarrow> (nat \<times> pyval \<times> pyval \<times> pyval \<times> pyval) list" where
  \<comment> \<open>\<^verbatim>\<open>df[requeridas]\<close>, each row with its index label.\<close>
  "selecciona_hoja cols rows =
     zip [0..<length rows]
       (map (\<lambda>row. (columna cols ''fecha'' row, columna cols ''gasolina regular'' row,
                     columna cols ''gasolina superior'' row,
                     columna cols ''diesel alto azufre'' row)) rows)"

definition numeros_hoja ::
  "pandas \<Rightarrow> nat \<times> timestamp \<times> pyval \<times> pyval \<times> pyval \<Rightarrow> nat \<times> fila_hoja" where
  \<comment> \<open>The loop \<^verbatim>\<open>for col in requeridas[1:]\<close>, on one row.\<close>
  "numeros_hoja pd = (\<lambda>(i, t, r, s, d).
     (i, \<lparr>fecha = t, gasolina_regular = limpia_numero pd r,
          gasolina_superior = limpia_numero pd s, diesel_alto_azufre = limpia_numero pd d\<rparr>))"

definition carga_y_limpia_hoja :: "pandas \<Rightarrow> hoja \<Rightarrow> error + (nat \<times> fila_hoja) list" where
  "carga_y_limpia_hoja pd xls =
     (case detecta_header (cruda xls) of
        Inl e \<Rightarrow> Inl e
      | Inr header_row \<Rightarrow>
          let df = con_header xls header_row;
              cols = map normaliza_col (columns df)
          in if \<not> list_all es_str cols then Inl AttributeError
             else let cols = map renombra_col cols;
                      faltantes = faltan requeridas cols
                  in if faltantes \<noteq> [] then Inl (MissingColumns faltantes)
                     else if duplicadas requeridas cols then Inl ErrorPandas
                     else Inr (map (numeros_hoja pd)
                                (ordena (filas_con_fecha pd (selecciona_hoja cols (filas df))))))"

definition wide_to_long :: "(nat \<times> fila_hoja) list \<Rightarrow> string \<Rightarrow> fila_larga list" where
  \<comment> \<open>\<^verbatim>\<open>df.melt(id_vars="fecha", ...)\<close> lists the value columns one after the other,
      each with all the rows; the three \<^verbatim>\<open>str.replace\<close> then shorten the labels.\<close>
  "wide_to_long df origen' =
     map (\<lambda>(f, p, b).
            \<lparr>fecha = f,
             producto = replace ''diesel alto azufre'' ''diesel''
                          (replace ''gasolina superior'' ''superior''
                             (replace ''gasolina regular'' ''regular'' p)),
             barriles = b, origen = origen'\<rparr>)
       (concat (map (\<lambda>(p, col). map (\<lambda>(i, row). (fecha row, p, col row)) df)
          [(''gasolina regular'', gasolina_regular),
           (''gasolina superior'', gasolina_superior),
           (''diesel alto azufre'', diesel_alto_azufre)]))"

definition solo_imp :: "fila_hoja \<Rightarrow> fila_combinada" where
  "solo_imp x =
     \<lparr>fecha = fecha x, Regular_Imp = gasolina_regular x, Superior_Imp = gasolina_superior x,
      Diesel_Imp = diesel_alto_azufre x, Regular_Con = None, Superior_Con = None,
      Diesel_Con = None\<rparr>"

definition solo_con :: "fila_hoja \<Rightarrow> fila_combinada" where
  "solo_con y =
     \<lparr>fecha = fecha y, Regular_Imp = None, Superior_Imp = None, Diesel_Imp = None,
      Regular_Con = gasolina_regular y, Superior_Con = gasolina_superior y,
      Diesel_Con = diesel_alto_azufre y\<rparr>"

definition imp_y_con :: "fila_hoja \<Rightarrow> fila_hoja \<Rightarrow> fila_combinada" where
  "imp_y_con x y =
     \<lparr>fecha = fecha x, Regular_Imp = gasolina_regular x, Superior_Imp = gasolina_superior x,
      Diesel_Imp = diesel_alto_azufre x, Regular_Con = gasolina_regular y,
      Superior_Con = gasolina_superior y, Diesel_Con = diesel_alto_azufre y\<rparr>"

definition grupo :: "fila_hoja list \<Rightarrow> fila_hoja list \<Rightarrow> fila_combinada list" where
  \<comment> \<open>The rows an outer join gives for one date: every pair of a left and a right
      row, or the rows of one side alone when the other has none.\<close>
  "grupo xs ys =
     (if ys = [] then map solo_imp xs
      else if xs = [] then map solo_con ys
      else concat (map (\<lambda>x. map (imp_y_con x) ys) xs))"

definition merge_outer :: "fila_hoja list \<Rightarrow> fila_hoja list \<Rightarrow> fila_combinada list" where
  \<comment> \<open>\<^verbatim>\<open>pd.merge(imp.rename(...), con.rename(...), on="fecha", how="outer")\<close>: the
      dates of both sides in ascending order, each with its group of rows.\<close>
  "merge_outer imp con =
     concat (map (\<lambda>k. grupo (filter (\<lambda>x. fecha x = k) imp) (filter (\<lambda>y. fecha y = k) con))
               (sort (remdups (map fecha imp @ map fecha con))))"

definition combina :: "fila_hoja list \<Rightarrow> fila_hoja list \<Rightarrow> fila_combinada list" where
  \<comment> \<open>The merge of \<^verbatim>\<open>main\<close>: the outer join, then \<^verbatim>\<open>.sort_values("fecha")\<close>.\<close>
  "combina imp con = sort_values fecha (merge_outer imp con)"

definition main_excel_a_csv ::
  "pandas \<Rightarrow> hoja \<Rightarrow> hoja \<Rightarrow> error + fila_hoja list \<times> fila_hoja list \<times> fila_combinada list" where
  \<comment> \<open>\<^verbatim>\<open>main\<close> of \<^verbatim>\<open>excel_a_csv.py\<close> on the two sheets of the workbook; the result is
      the three tables it writes, without their index (\<^verbatim>\<open>index=False\<close>).\<close>
  "main_excel_a_csv pd importacion consumo =
     (case carga_y_limpia_hoja pd importacion of
        Inl e \<Rightarrow> Inl e
      | Inr imp \<Rightarrow>
          (case carga_y_limpia_hoja pd consumo of
             Inl e \<Rightarrow> Inl e
           | Inr con \<Rightarrow> Inr (map snd imp, map snd con, combina (map snd imp) (map snd con))))"

section \<open>The script \<^verbatim>\<open>actualiza_datos_2025.py\<close>\<close>

definition requeridas_2025 :: "string list" where
  "requeridas_2025 =
     [''fecha'', ''gasolina regular'', ''gasolina superior'', ''diesel bajo azufre'',
      ''diesel ultra bajo azufre'']"

definition selecciona_2025 ::
  "pyval list \<Rightarrow> pyval list list \<Rightarrow> (nat \<times> pyval \<times> pyval \<times> pyval \<times> pyval \<times> pyval) list" where
  "selecciona_2025 cols rows =
     zip [0..<length rows]
       (map (\<lambda>row. (columna cols ''fecha'' row, columna cols ''gasolina regular'' row,
                     columna cols ''gasolina superior'' row,
                     columna cols ''diesel bajo azufre'' row,
                     columna cols ''diesel ultra bajo azufre'' row)) rows)"

definition numeros_2025 ::
  "pandas \<Rightarrow> nat \<times> timestamp \<times> pyval \<times> pyval \<times> pyval \<times> pyval \<Rightarrow> nat \<times> fila_2025" where
  "numeros_2025 pd = (\<lambda>(i, t, r, s, b, u).
     (i, \<lparr>fecha = t, gasolina_regular = limpia_numero pd r,
          gasolina_superior = limpia_numero pd s, diesel_bajo_azufre = limpia_numero pd b,
          diesel_ultra_bajo_azufre = limpia_numero pd u\<rparr>))"

definition limpia_2025 :: "pandas \<Rightarrow> hoja \<Rightarrow> error + (nat \<times> fila_2025) list" where
  \<comment> \<open>\<^verbatim>\<open>carga_y_limpia_importacion\<close> up to the end of the loop over the value columns.\<close>
  "limpia_2025 pd xls =
     (case detecta_header (cruda xls) of
        Inl e \<Rightarrow> Inl e
      | Inr header_row \<Rightarrow>
          let df = con_header xls header_row;
              cols = map normaliza_col (columns df);
              faltantes = faltan requeridas_2025 cols
          in if faltantes \<noteq> [] then Inl (MissingColumns faltantes)
             else if duplicadas requeridas_2025 cols then Inl ErrorPandas
             else Inr (map (numeros_2025 pd)
                        (ordena (filas_con_fecha pd (selecciona_2025 cols (filas df))))))"

definition diesel_total :: "fila_2025 \<Rightarrow> fila_imp" where
  \<comment> \<open>The diesel columns combined, the two source columns dropped, and the columns
      renamed, on one row.\<close>
  "diesel_total row =
     \<lparr>fecha = fecha row, Regular_Imp = gasolina_regular row,
      Superior_Imp = gasolina_superior row,
      Diesel_Imp = Some (fillna 0 (diesel_bajo_azufre row)
                         + fillna 0 (diesel_ultra_bajo_azufre row))\<rparr>"

definition carga_y_limpia_importacion :: "pandas \<Rightarrow> hoja \<Rightarrow> error + (nat \<times> fila_imp) list" where
  "carga_y_limpia_importacion pd xls =
     (case limpia_2025 pd xls of
        Inl e \<Rightarrow> Inl e
      | Inr df \<Rightarrow> Inr (map (\<lambda>(i, row). (i, diesel_total row)) df))"

section \<open>Example sheets\<close>

definition cruda_ejemplo :: "string option list list" where
  \<comment> \<open>A raw sheet: banner rows, the header in row 3, data below.\<close>
  "cruda_ejemplo =
     [[Some ''Importacion de combustibles'', None, None, None],
      [None, None, None, None],
      [Some ''Fecha2024'', Some ''barriles'', None, None],
      [Some '' Fecha'', Some ''Gasolina Regular'', Some ''Gasolina Superior'',
       Some ''Diesel alto azufre''],
      [Some ''2024-03-01'', Some ''30'', Some ''1,300'', Some ''--''],
      [Some ''Fecha'', None, None, None]]"

definition pandas_ejemplo :: pandas where
  \<comment> \<open>An instance of the library that reads nothing beyond what the model fixes.\<close>
  "pandas_ejemplo =
     \<lparr>parse_fecha = (\<lambda>v. None), parse_numero = (\<lambda>s. None), str_otro = (\<lambda>v. ''?'')\<rparr>"

definition cruda_2025_ejemplo :: "string option list list" where
  \<comment> \<open>The raw import sheet of 2025: two banner rows, the header, three months and a
      row of totals without a date.\<close>
  "cruda_2025_ejemplo =
     [[Some ''Importacion 2025'', None, None, None, None],
      [None, None, None, None, None],
      [Some ''Fecha'', Some ''Gasolina  Regular'', Some ''Gasolina\<newline>Superior'',
       Some ''Diesel bajo azufre'', Some ''Diesel ultra bajo azufre''],
      [Some ''2025-03-01'', Some ''30'', Some ''1,300'', Some ''3'', Some ''2''],
      [Some ''2025-01-01'', Some ''10'', Some ''--'', Some ''5'', None],
      [Some ''2025-02-01'', Some ''20'', Some ''1 200'', None, Some ''--''],
      [None, Some ''60'', None, None, None]]"

definition tabla_2025_ejemplo :: tabla where
  \<comment> \<open>The same sheet read under its header; the months are the timestamps 1, 2, 3.\<close>
  "tabla_2025_ejemplo =
     \<lparr>columns = [Str ''Fecha'', Str ''Gasolina  Regular'', Str ''Gasolina\<newline>Superior'',
                 Str ''Diesel bajo azufre'', Str ''Diesel ultra bajo azufre''],
      filas = [[Timestamp 3, Str ''30'', Str ''1,300'', Str ''3'', Str ''2''],
               [Timestamp 1, Str ''10'', Str ''--'', Str ''5'', NaN],
               [Timestamp 2, Str ''20'', Str ''1 200'', NaN, Str ''--''],
               [NaN, Str ''60'', NaN, NaN, NaN]]\<rparr>"

definition hoja_2025_ejemplo :: hoja where
  "hoja_2025_ejemplo =
     \<lparr>cruda = cruda_2025_ejemplo,
      con_header = (\<lambda>h. if h = 2 then tabla_2025_ejemplo else \<lparr>columns = [], filas = []\<rparr>)\<rparr>"

definition cruda_hoja_ejemplo :: "string option list list" where
  \<comment> \<open>A raw sheet of \<^verbatim>\<open>excel_a_csv.py\<close>: two banner rows, the header, three months, a
      source note and a row of totals without a date.\<close>
  "cruda_hoja_ejemplo =
     [[Some ''Importacion de combustibles'', None, None, None],
      [None, None, None, None],
      [Some ''Fecha'', Some ''Gasolina Regular'', Some ''Gasolina Super 95'',
       Some ''Diesel alto\<newline>azufre''],
      [Some ''2024-03-01'', Some ''30'', Some ''1,300'', Some ''--''],
      [Some ''2024-01-01'', Some ''10'', Some ''--'', Some ''5''],
      [Some ''2024-02-01'', Some ''20'', Some ''1 200'', None],
      [Some ''Fuente: MEM'', None, None, None],
      [None, Some ''60'', None, None]]"

definition tabla_hoja_ejemplo :: tabla where
  \<comment> \<open>The same sheet read under its header; the months are the timestamps 1, 2, 3.\<close>
  "tabla_hoja_ejemplo =
     \<lparr>columns = [Str ''Fecha'', Str ''Gasolina Regular'', Str ''Gasolina Super 95'',
                 Str ''Diesel alto\<newline>azufre''],
      filas = [[Timestamp 3, Str ''30'', Str ''1,300'', Str ''--''],
               [Timestamp 1, Str ''10'', Str ''--'', Str ''5''],
               [Timestamp 2, Str ''20'', Str ''1 200'', NaN],
               [Str ''Fuente: MEM'', NaN, NaN, NaN],
               [NaN, Str ''60'', NaN, NaN]]\<rparr>"

definition hoja_ejemplo :: hoja where
  "hoja_ejemplo =
     \<lparr>cruda = cruda_hoja_ejemplo,
      con_header = (\<lambda>h. if h = 2 then tabla_hoja_ejemplo else \<lparr>columns = [], filas = []\<rparr>)\<rparr>"

definition salida_ejemplo :: "(nat \<times> fila_hoja) list" where
  "salida_ejemplo =
     [(0, \<lparr>fecha = 1, gasolina_regular = Some 10, gasolina_superior = None,
           diesel_alto_azufre = Some 5\<rparr>),
      (1, \<lparr>fecha = 2, gasolina_regular = Some 20, gasolina_superior = Some 1200,
           diesel_alto_azufre = None\<rparr>),
      (2, \<lparr>fecha = 3, gasolina_regular = Some 30, gasolina_superior = Some 1300,
           diesel_alto_azufre = None\<rparr>)]"

definition hoja_repetida :: hoja where
  \<comment> \<open>A sheet in which two rows carry the same date.\<close>
  "hoja_repetida =
     \<lparr>cruda = [[Some ''Fecha'', Some ''Gasolina Regular'', Some ''Gasolina Superior'',
                 Some ''Diesel alto azufre''],
                [Some ''2024-01-01'', Some ''10'', Some ''11'', Some ''12''],
                [Some ''2024-01-01'', Some ''20'', Some ''21'', Some ''22'']],
      con_header = (\<lambda>h. \<lparr>columns = [Str ''Fecha'', Str ''Gasolina Regular'',
                                      Str ''Gasolina Superior'', Str ''Diesel alto azufre''],
                            filas = [[Timestamp 1, Str ''10'', Str ''11'', Str ''12''],
                                     [Timestamp 1, Str ''20'', Str ''21'', Str ''22'']]\<rparr>)\<rparr>"

definition salida_repetida :: "(nat \<times> fila_hoja) list" where
  "salida_repetida =
     [(0, \<lparr>fecha = 1, gasolina_regular = Some 10, gasolina_superior = Some 11,
           diesel_alto_azufre = Some 12\<rparr>),
      (1, \<lparr>fecha = 1, gasolina_regular = Some 20, gasolina_superior = Some 21,
           diesel_alto_azufre = Some 22\<rparr>)]"

definition imp_ejemplo :: "fila_hoja list" where
  \<comment> \<open>A cleaned import table with the dates 1 and 2.\<close>
  "imp_ejemplo =
     [\<lparr>fecha = 1, gasolina_regular = Some 10, gasolina_superior = None,
       diesel_alto_azufre = Some 5\<rparr>,
      \<lparr>fecha = 2, gasolina_regular = Some 20, gasolina_superior = Some 1200,
       diesel_alto_azufre = None\<rparr>]"

definition con_ejemplo :: "fila_hoja list" where
  \<comment> \<open>A cleaned consumption table with the dates 2 and 3.\<close>
  "con_ejemplo =
     [\<lparr>fecha = 2, gasolina_regular = Some 7, gasolina_superior = Some 8,
       diesel_alto_azufre = None\<rparr>,
      \<lparr>fecha = 3, gasolina_regular = Some 9, gasolina_superior = None,
       diesel_alto_azufre = Some 4\<rparr>]"

definition hoja_con_numero :: hoja where
  \<comment> \<open>A sheet whose header row holds a number (the year 2024) beside the labels, and
      lacks the premium-gasoline and diesel columns.\<close>
  "hoja_con_numero =
     \<lparr>cruda = [[Some ''Fecha'', Some ''Gasolina Regular'', Some ''2024''],
                [Some ''2024-01-01'', Some ''10'', Some ''3'']],
      con_header = (\<lambda>h. \<lparr>columns = [Str ''Fecha'', Str ''Gasolina Regular'', Numero 2024],
                            filas = [[Timestamp 1, Str ''10'', Str ''3'']]\<rparr>)\<rparr>"

definition salida_2025_ejemplo :: "(nat \<times> fila_imp) list" where
  "salida_2025_ejemplo =
     [(0, \<lparr>fecha = 1, Regular_Imp = Some 10, Superior_Imp = None, Diesel_Imp = Some 5\<rparr>),
      (1, \<lparr>fecha = 2, Regular_Imp = Some 20, Superior_Imp = Some 1200,
           Diesel_Imp = Some 0\<rparr>),
      (2, \<lparr>fecha = 3, Regular_Imp = Some 30, Superior_Imp = Some 1300,
           Diesel_Imp = Some 5\<rparr>)]"

section \<open>Facts about the string functions\<close>

lemma isspace_lower_char: "isspace (lower_char c) = isspace c"
  unfolding isspace_def lower_char_def Let_def
  by (auto simp: of_char_of)

lemma lower_char_idem: "lower_char (lower_char c) = lower_char c"
  unfolding lower_char_def Let_def
  by (auto simp: of_char_of)

lemma lower_idem: "lower (lower s) = lower s"
  by (simp add: lower_def lower_char_idem)

lemma split_from_spaces:
  "list_all isspace sp \<Longrightarrow> split_from w sp = (if w = [] then [] else [w])"
  by (induction sp arbitrary: w) auto

lemma split_from_append_spaces:
  "list_all isspace sp \<Longrightarrow> split_from w (s @ sp) = split_from w s"
  by (induction s arbitrary: w) (auto simp: split_from_spaces)

lemma split_from_dropWhile:
  "split_from [] (dropWhile isspace s) = split_from [] s"
  by (induction s) auto

lemma rstrip_decomp:
  "rev (dropWhile isspace (rev s)) @ rev (takeWhile isspace (rev s)) = s"
  by (metis rev_append rev_rev_ident takeWhile_dropWhile_id)

lemma split_strip: "split (strip s) = split s"
proof -
  let ?t = "dropWhile isspace s"
  have "list_all isspace (rev (takeWhile isspace (rev ?t)))"
    by (simp add: list_all_iff) (meson set_takeWhileD)
  then have "split_from [] (strip s @ rev (takeWhile isspace (rev ?t))) = split_from [] (strip s)"
    by (rule split_from_append_spaces)
  moreover have "strip s @ rev (takeWhile isspace (rev ?t)) = ?t"
    unfolding strip_def by (rule rstrip_decomp)
  ultimately show ?thesis
    by (simp add: split_def split_from_dropWhile)
qed

lemma replace_char:
  "replace [a] [b] s = map (\<lambda>c. if c = a then b else c) s"
proof (induction s)
  case Nil
  show ?case by (subst replace.simps) simp
next
  case (Cons c cs)
  then show ?case by (subst replace.simps) (simp add: startswith_def)
qed

lemma split_from_map:
  assumes "\<And>c. isspace (f c) = isspace c" and "\<And>c. \<not> isspace c \<Longrightarrow> f c = c"
  shows "split_from w (map f s) = split_from w s"
  using assms by (induction s arbitrary: w) auto

lemma split_replace_newline: "split (replace ''\<newline>'' '' '' s) = split s"
  unfolding split_def replace_char
  by (rule split_from_map) (auto simp: isspace_def)

lemma split_from_word:
  "list_all (\<lambda>c. \<not> isspace c) v \<Longrightarrow> split_from w (v @ s) = split_from (w @ v) s"
  by (induction v arbitrary: w) auto

lemma split_from_join:
  "list_all palabra ws \<Longrightarrow> split_from [] (join '' '' ws) = ws"
proof (induction ws rule: induct_list012)
  case 1
  then show ?case by simp
next
  case (2 w)
  then show ?case
    using split_from_word[of w "[]" "[]"] by (simp add: palabra_def)
next
  case (3 w v ws)
  have sp: "isspace CHR '' ''" by (simp add: isspace_def)
  from 3 have w: "list_all (\<lambda>c. \<not> isspace c) w" "w \<noteq> []" by (simp_all add: palabra_def)
  have "split_from [] (w @ '' '' @ join '' '' (v # ws)) = split_from w ('' '' @ join '' '' (v # ws))"
    using split_from_word[OF w(1), of "[]"] by simp
  also have "\<dots> = w # split_from [] (join '' '' (v # ws))"
    using w(2) sp by simp
  finally show ?case using 3 by simp
qed

lemma split_from_palabras:
  "w = [] \<or> palabra w \<Longrightarrow> list_all palabra (split_from w s)"
  by (induction s arbitrary: w) (auto simp: palabra_def)

lemma lower_join: "lower (join '' '' ws) = join '' '' (map lower ws)"
  by (induction ws rule: induct_list012)
     (simp_all add: lower_def lower_char_def)

lemma palabra_lower: "palabra w \<Longrightarrow> palabra (lower w)"
  by (simp add: palabra_def lower_def list_all_iff isspace_lower_char)

lemma normaliza_col_Str: "normaliza_col (Str s) = Str (lower (join '' '' (split s)))"
  by (simp only: normaliza_col.simps split_strip split_replace_newline)

lemma split_normalizado:
  "split (lower (join '' '' (split s))) = map lower (split s)"
proof -
  have "list_all palabra (split s)"
    unfolding split_def by (rule split_from_palabras) simp
  then have "list_all palabra (map lower (split s))"
    by (simp add: list_all_iff palabra_lower)
  then show ?thesis
    unfolding lower_join by (simp add: split_def split_from_join)
qed

section \<open>The column normalizer is idempotent\<close>

text \<open>
  Claim C7. Normalizing a label that is already normalized returns it unchanged:
  for every label \<open>s\<close>, a string or not, \<open>normaliza_col (normaliza_col s) = normaliza_col s\<close>.
\<close>

theorem normaliza_col_idempotent: "normaliza_col (normaliza_col s) = normaliza_col s"
proof (cases s)
  case (Str col)
  have "map lower (map lower (split col)) = map lower (split col)"
    by (simp add: lower_idem)
  then have "lower (join '' '' (map lower (split col))) = lower (join '' '' (split col))"
    by (simp only: lower_join)
  then show ?thesis
    unfolding Str normaliza_col_Str split_normalizado by simp
qed simp_all

theorem normaliza_col_idempotent_witness:
  "normaliza_col (normaliza_col (Str ''  Gasolina\<newline>Superior  '')) = Str ''gasolina superior''
   \<and> normaliza_col (normaliza_col (Numero 2024)) = Numero 2024"
  by (simp only: normaliza_col_idempotent) code_simp

section \<open>The header locator finds the first row that holds the label\<close>

lemma detecta_header_desde_Inr:
  "detecta_header_desde k df = Inr i \<longleftrightarrow>
     k \<le> i \<and> i - k < length df \<and> tiene_fecha (df ! (i - k))
     \<and> (\<forall>j < i - k. \<not> tiene_fecha (df ! j))"
proof (induction df arbitrary: k)
  case Nil
  show ?case by simp
next
  case (Cons row rows)
  show ?case
  proof (cases "tiene_fecha row")
    case True
    show ?thesis
    proof (cases "i = k")
      case True
      with \<open>tiene_fecha row\<close> show ?thesis by simp
    next
      case False
      have "\<not> (\<forall>j < i - k. \<not> tiene_fecha ((row # rows) ! j))" if "k \<le> i"
      proof -
        from that False have "0 < i - k" by arith
        moreover have "tiene_fecha ((row # rows) ! 0)"
          using \<open>tiene_fecha row\<close> by simp
        ultimately show ?thesis by blast
      qed
      with False \<open>tiene_fecha row\<close> show ?thesis by auto
    qed
  next
    case False
    have "(Suc k \<le> i \<and> i - Suc k < length rows \<and> tiene_fecha (rows ! (i - Suc k))
           \<and> (\<forall>j < i - Suc k. \<not> tiene_fecha (rows ! j)))
       \<longleftrightarrow> (k \<le> i \<and> i - k < length (row # rows) \<and> tiene_fecha ((row # rows) ! (i - k))
           \<and> (\<forall>j < i - k. \<not> tiene_fecha ((row # rows) ! j)))" (is "?L \<longleftrightarrow> ?R")
    proof
      assume l: ?L
      then have ik: "i - k = Suc (i - Suc k)" by arith
      show ?R unfolding ik using l False by (auto simp: less_Suc_eq_0_disj)
    next
      assume r: ?R
      with False have "i \<noteq> k" by auto
      with r have lt: "Suc k \<le> i" by arith
      then have ik: "i - k = Suc (i - Suc k)" by arith
      from r have a: "i - Suc k < length rows" and b: "tiene_fecha (rows ! (i - Suc k))"
        by (simp_all add: ik)
      have c: "\<not> tiene_fecha (rows ! j)" if "j < i - Suc k" for j
      proof -
        from that have "Suc j < i - k" by (simp add: ik)
        with r have "\<not> tiene_fecha ((row # rows) ! Suc j)" by blast
        then show ?thesis by simp
      qed
      from lt a b c show ?L by blast
    qed
    with False Cons.IH[of "Suc k"] show ?thesis by simp
  qed
qed

lemma detecta_header_desde_Inl:
  "detecta_header_desde k df = Inl e \<longleftrightarrow> e = HeaderNotFound \<and> list_all (\<lambda>row. \<not> tiene_fecha row) df"
  by (induction df arbitrary: k) auto

lemma tiene_fecha_iff:
  "tiene_fecha row \<longleftrightarrow> (\<exists>s. Some s \<in> set row \<and> lower (strip s) = ''fecha'')"
proof -
  have nan: "lower (strip ''nan'') \<noteq> ''fecha''" by code_simp
  show ?thesis
    unfolding tiene_fecha_def list_ex_iff astype_str_cruda_def
    by (auto simp: nan split: option.splits)
qed

text \<open>
  Claim C3. For every raw sheet, the header locator returns the zero-based index of the
  first row, from the top, that holds a cell whose trimmed, lower-cased string is exactly
  \<open>fecha\<close>; a cell that only contains the word (\<open>Fecha2024\<close>) does not count,
  \<open>FECHA\<close> and \<open> fecha \<close> do. It fails, with \<^const>\<open>HeaderNotFound\<close> and nothing else,
  exactly when no row holds such a cell.
\<close>

theorem detecta_header_first_match:
  "(detecta_header df = Inr i \<longleftrightarrow>
      i < length df \<and> tiene_fecha (df ! i) \<and> (\<forall>j<i. \<not> tiene_fecha (df ! j)))
   \<and> (detecta_header df = Inl HeaderNotFound \<longleftrightarrow> (\<forall>row \<in> set df. \<not> tiene_fecha row))
   \<and> (\<forall>e. detecta_header df = Inl e \<longrightarrow> e = HeaderNotFound)
   \<and> (tiene_fecha row \<longleftrightarrow> (\<exists>s. Some s \<in> set row \<and> lower (strip s) = ''fecha''))
   \<and> \<not> tiene_fecha [Some ''Fecha2024''] \<and> tiene_fecha [Some ''FECHA'']
   \<and> tiene_fecha [Some '' fecha '']"
proof -
  have a: "detecta_header df = Inr i \<longleftrightarrow>
      i < length df \<and> tiene_fecha (df ! i) \<and> (\<forall>j<i. \<not> tiene_fecha (df ! j))"
    unfolding detecta_header_def detecta_header_desde_Inr by simp
  have b: "detecta_header df = Inl e \<longleftrightarrow>
      e = HeaderNotFound \<and> (\<forall>row \<in> set df. \<not> tiene_fecha row)" for e
    unfolding detecta_header_def detecta_header_desde_Inl list_all_iff by simp
  have c: "\<not> tiene_fecha [Some ''Fecha2024'']" "tiene_fecha [Some ''FECHA'']"
    "tiene_fecha [Some '' fecha '']"
    by code_simp+
  from a b c tiene_fecha_iff[of row] show ?thesis by blast
qed

theorem detecta_header_first_match_witness:
  "detecta_header cruda_ejemplo = Inr 3
   \<and> detecta_header [[Some ''Fecha2024'', None], [Some ''2024-01-01'', Some ''5'']]
       = Inl HeaderNotFound"
proof -
  have "\<not> tiene_fecha (cruda_ejemplo ! j)" if "j < 3" for j
  proof -
    from that consider "j = 0" | "j = 1" | "j = 2" by arith
    then show ?thesis
    proof cases
      case 1 show ?thesis unfolding 1 by code_simp
    next
      case 2 show ?thesis unfolding 2 by code_simp
    next
      case 3 show ?thesis unfolding 3 by code_simp
    qed
  qed
  moreover have "3 < length cruda_ejemplo" "tiene_fecha (cruda_ejemplo ! 3)"
    by code_simp+
  ultimately have "detecta_header cruda_ejemplo = Inr 3"
    using detecta_header_first_match[of cruda_ejemplo 3] by blast
  moreover have "\<forall>row \<in> set [[Some ''Fecha2024'', None], [Some ''2024-01-01'', Some ''5'']].
      \<not> tiene_fecha row"
    by code_simp
  then have "detecta_header [[Some ''Fecha2024'', None], [Some ''2024-01-01'', Some ''5'']]
       = Inl HeaderNotFound"
    using detecta_header_first_match[of "[[Some ''Fecha2024'', None], [Some ''2024-01-01'', Some ''5'']]"]
    by blast
  ultimately show ?thesis by blast
qed

section \<open>The numeric cleaning of a cell\<close>








lemma eq_char_of_iff: "c = char_of n \<longleftrightarrow> of_char c = take_bit 8 (n::nat)"
  using char_of_eq_iff[of n c] by (auto simp: eq_commute)

named_theorems evalua \<open>the equations that evaluate the model on a concrete sheet\<close>

lemmas [evalua] =
  replace.simps startswith_def strip_def split_def isspace_def lower_def lower_char_def
  char_of_eq_iff eq_char_of_iff Let_def isdigit_def decimal_def to_numeric_def to_datetime_def astype_str_def
  fillna_def sort_values_def reset_index_def celda_def columna_def astype_str_cruda_def
  tiene_fecha_def detecta_header_def limpia_texto_def limpia_numero_def filas_con_fecha_def
  ordena_def requeridas_def renombra_def faltan_def duplicadas_def selecciona_hoja_def
  numeros_hoja_def carga_y_limpia_hoja_def requeridas_2025_def selecciona_2025_def
  numeros_2025_def limpia_2025_def diesel_total_def carga_y_limpia_importacion_def
  List.map_filter_def pandas_ejemplo_def

section \<open>The steps of the cleaners\<close>

lemma filas_con_fecha_filter:
  "filas_con_fecha pd rows =
     map (\<lambda>(i, f, v). (i, the (to_datetime pd f), v))
       (filter (\<lambda>(i, f, v). to_datetime pd f \<noteq> None) rows)"
  unfolding filas_con_fecha_def List.map_filter_def
  by (induction rows) auto

lemma map_fst_ordena: "map fst (ordena rows) = [0..<length rows]"
  by (simp add: ordena_def reset_index_def sort_values_def)

lemma length_ordena: "length (ordena rows) = length rows"
  by (simp add: ordena_def reset_index_def sort_values_def)

lemma map_snd_ordena: "map snd (ordena rows) = map snd (sort_key (\<lambda>(i, t, v). t) rows)"
  by (simp add: ordena_def reset_index_def sort_values_def)

lemma mset_snd_ordena: "mset (map snd (ordena rows)) = mset (map snd rows)"
  unfolding map_snd_ordena by (metis mset_map mset_sort)

lemma sorted_ordena: "sorted (map (\<lambda>(i, t, v). t) (ordena rows))"
proof -
  have "map (\<lambda>(i, t, v). t) (ordena rows) = map (\<lambda>(t, v). t) (map snd (ordena rows))"
    by (simp add: case_prod_beta comp_def)
  also have "\<dots> = map (\<lambda>(i, t, v). t) (sort_key (\<lambda>(i, t, v). t) rows)"
    unfolding map_snd_ordena by (simp add: case_prod_beta comp_def)
  finally show ?thesis by (simp add: sorted_sort_key)
qed

lemma carga_y_limpia_hoja_Inr:
  assumes "carga_y_limpia_hoja pd xls = Inr out"
  obtains h where "detecta_header (cruda xls) = Inr h"
    and "list_all es_str (map normaliza_col (columns (con_header xls h)))"
    and "faltan requeridas (map renombra_col (map normaliza_col (columns (con_header xls h)))) = []"
    and "\<not> duplicadas requeridas
            (map renombra_col (map normaliza_col (columns (con_header xls h))))"
    and "out = map (numeros_hoja pd) (ordena (filas_con_fecha pd
           (selecciona_hoja (map renombra_col (map normaliza_col (columns (con_header xls h))))
              (filas (con_header xls h)))))"
  using assms unfolding carga_y_limpia_hoja_def Let_def
  by (auto split: sum.splits if_splits)

lemma limpia_2025_Inr:
  assumes "limpia_2025 pd xls = Inr out"
  obtains h where "detecta_header (cruda xls) = Inr h"
    and "faltan requeridas_2025 (map normaliza_col (columns (con_header xls h))) = []"
    and "\<not> duplicadas requeridas_2025 (map normaliza_col (columns (con_header xls h)))"
    and "out = map (numeros_2025 pd) (ordena (filas_con_fecha pd
           (selecciona_2025 (map normaliza_col (columns (con_header xls h)))
              (filas (con_header xls h)))))"
  using assms unfolding limpia_2025_def Let_def
  by (auto split: sum.splits if_splits)

lemma carga_y_limpia_importacion_Inr:
  "carga_y_limpia_importacion pd xls = Inr out \<longleftrightarrow>
     (\<exists>df. limpia_2025 pd xls = Inr df \<and> out = map (\<lambda>(i, row). (i, diesel_total row)) df)"
  unfolding carga_y_limpia_importacion_def by (auto split: sum.splits)

lemma fecha_numeros_hoja: "map (fecha \<circ> snd) (map (numeros_hoja pd) rows) = map (\<lambda>(i, t, v). t) rows"
  by (simp add: numeros_hoja_def case_prod_beta comp_def)

lemma fst_numeros_hoja: "map fst (map (numeros_hoja pd) rows) = map fst rows"
  by (simp add: numeros_hoja_def case_prod_beta comp_def)

lemma fecha_numeros_2025: "map (fecha \<circ> snd) (map (numeros_2025 pd) rows) = map (\<lambda>(i, t, v). t) rows"
  by (simp add: numeros_2025_def case_prod_beta comp_def)

lemma fst_numeros_2025: "map fst (map (numeros_2025 pd) rows) = map fst rows"
  by (simp add: numeros_2025_def case_prod_beta comp_def)

lemma fecha_diesel_total:
  "map (fecha \<circ> snd) (map (\<lambda>(i, row). (i, diesel_total row)) df) = map (fecha \<circ> snd) df"
  by (simp add: diesel_total_def case_prod_beta comp_def)

lemma fst_diesel_total:
  "map fst (map (\<lambda>(i, row). (i, diesel_total row)) df) = map fst df"
  by (simp add: case_prod_beta comp_def)

section \<open>The diesel columns are summed with missing read as zero\<close>

lemma header_2025_ejemplo: "detecta_header cruda_2025_ejemplo = Inr 2"
  by (simp add: evalua cruda_2025_ejemplo_def)

lemma columnas_2025_ejemplo:
  "map normaliza_col (columns tabla_2025_ejemplo) =
     [Str ''fecha'', Str ''gasolina regular'', Str ''gasolina superior'',
      Str ''diesel bajo azufre'', Str ''diesel ultra bajo azufre'']"
  by (simp add: evalua tabla_2025_ejemplo_def)

lemma limpia_2025_ejemplo:
  "limpia_2025 pandas_ejemplo hoja_2025_ejemplo =
     Inr [(0, \<lparr>fecha = 1, gasolina_regular = Some 10, gasolina_superior = None,
               diesel_bajo_azufre = Some 5, diesel_ultra_bajo_azufre = None\<rparr>),
          (1, \<lparr>fecha = 2, gasolina_regular = Some 20, gasolina_superior = Some 1200,
               diesel_bajo_azufre = None, diesel_ultra_bajo_azufre = None\<rparr>),
          (2, \<lparr>fecha = 3, gasolina_regular = Some 30, gasolina_superior = Some 1300,
               diesel_bajo_azufre = Some 3, diesel_ultra_bajo_azufre = Some 2\<rparr>)]"
proof -
  have f: "faltan requeridas_2025 (map normaliza_col (columns tabla_2025_ejemplo)) = []"
    unfolding columnas_2025_ejemplo by (simp add: faltan_def requeridas_2025_def)
  have d: "\<not> duplicadas requeridas_2025 (map normaliza_col (columns tabla_2025_ejemplo))"
    unfolding columnas_2025_ejemplo by (simp add: duplicadas_def requeridas_2025_def)
  have "limpia_2025 pandas_ejemplo hoja_2025_ejemplo =
      Inr (map (numeros_2025 pandas_ejemplo) (ordena (filas_con_fecha pandas_ejemplo
        (selecciona_2025 (map normaliza_col (columns tabla_2025_ejemplo))
           (filas tabla_2025_ejemplo)))))"
    unfolding limpia_2025_def
    by (simp add: hoja_2025_ejemplo_def header_2025_ejemplo f d Let_def)
  also have "\<dots> = Inr [(0, \<lparr>fecha = 1, gasolina_regular = Some 10, gasolina_superior = None,
               diesel_bajo_azufre = Some 5, diesel_ultra_bajo_azufre = None\<rparr>),
          (1, \<lparr>fecha = 2, gasolina_regular = Some 20, gasolina_superior = Some 1200,
               diesel_bajo_azufre = None, diesel_ultra_bajo_azufre = None\<rparr>),
          (2, \<lparr>fecha = 3, gasolina_regular = Some 30, gasolina_superior = Some 1300,
               diesel_bajo_azufre = Some 3, diesel_ultra_bajo_azufre = Some 2\<rparr>)]"
    unfolding columnas_2025_ejemplo
    by (simp add: evalua tabla_2025_ejemplo_def)
  finally show ?thesis .
qed



section \<open>The reshaper gives one row per row and product column\<close>

lemma etiquetas_producto:
  "replace ''diesel alto azufre'' ''diesel''
     (replace ''gasolina superior'' ''superior''
        (replace ''gasolina regular'' ''regular'' ''gasolina regular'')) = ''regular''"
  "replace ''diesel alto azufre'' ''diesel''
     (replace ''gasolina superior'' ''superior''
        (replace ''gasolina regular'' ''regular'' ''gasolina superior'')) = ''superior''"
  "replace ''diesel alto azufre'' ''diesel''
     (replace ''gasolina superior'' ''superior''
        (replace ''gasolina regular'' ''regular'' ''diesel alto azufre'')) = ''diesel''"
  by (simp_all add: replace.simps startswith_def)

text \<open>
  Claim C8. For a cleaned table of \<open>n\<close> rows and an origin tag, the reshaper gives
  exactly one long row per pair of an original row and a product column, \<open>3 * n\<close> rows
  in all: each carries the date and the value of its original row, the product tag that
  the literal substitutions make of the column label (\<open>regular\<close>, \<open>superior\<close>,
  \<open>diesel\<close>), and the origin tag of the caller, the same on every row.
\<close>

theorem wide_to_long_rows:
  "wide_to_long df org =
     map (\<lambda>(i, row). \<lparr>fecha = fecha row, producto = ''regular'',
                       barriles = gasolina_regular row, origen = org\<rparr>) df
     @ map (\<lambda>(i, row). \<lparr>fecha = fecha row, producto = ''superior'',
                         barriles = gasolina_superior row, origen = org\<rparr>) df
     @ map (\<lambda>(i, row). \<lparr>fecha = fecha row, producto = ''diesel'',
                         barriles = diesel_alto_azufre row, origen = org\<rparr>) df
   \<and> length (wide_to_long df org) = 3 * length df
   \<and> (\<forall>row \<in> set (wide_to_long df org). origen row = org)
   \<and> (\<forall>k < length df.
        wide_to_long df org ! k =
          \<lparr>fecha = fecha (snd (df ! k)), producto = ''regular'',
           barriles = gasolina_regular (snd (df ! k)), origen = org\<rparr>
        \<and> wide_to_long df org ! (length df + k) =
          \<lparr>fecha = fecha (snd (df ! k)), producto = ''superior'',
           barriles = gasolina_superior (snd (df ! k)), origen = org\<rparr>
        \<and> wide_to_long df org ! (2 * length df + k) =
          \<lparr>fecha = fecha (snd (df ! k)), producto = ''diesel'',
           barriles = diesel_alto_azufre (snd (df ! k)), origen = org\<rparr>)"
proof -
  have eq: "wide_to_long df org =
     map (\<lambda>(i, row). \<lparr>fecha = fecha row, producto = ''regular'',
                       barriles = gasolina_regular row, origen = org\<rparr>) df
     @ map (\<lambda>(i, row). \<lparr>fecha = fecha row, producto = ''superior'',
                         barriles = gasolina_superior row, origen = org\<rparr>) df
     @ map (\<lambda>(i, row). \<lparr>fecha = fecha row, producto = ''diesel'',
                         barriles = diesel_alto_azufre row, origen = org\<rparr>) df"
    unfolding wide_to_long_def
    by (simp add: etiquetas_producto case_prod_beta comp_def)
  have len: "length (wide_to_long df org) = 3 * length df"
    unfolding eq by simp
  have org: "\<forall>row \<in> set (wide_to_long df org). origen row = org"
    unfolding eq by auto
  have nth: "wide_to_long df org ! k =
          \<lparr>fecha = fecha (snd (df ! k)), producto = ''regular'',
           barriles = gasolina_regular (snd (df ! k)), origen = org\<rparr>
        \<and> wide_to_long df org ! (length df + k) =
          \<lparr>fecha = fecha (snd (df ! k)), producto = ''superior'',
           barriles = gasolina_superior (snd (df ! k)), origen = org\<rparr>
        \<and> wide_to_long df org ! (2 * length df + k) =
          \<lparr>fecha = fecha (snd (df ! k)), producto = ''diesel'',
           barriles = diesel_alto_azufre (snd (df ! k)), origen = org\<rparr>"
    if "k < length df" for k
    unfolding eq using that
    by (simp add: nth_append case_prod_beta mult_2)
  from eq len org nth show ?thesis by blast
qed

theorem wide_to_long_rows_witness:
  "wide_to_long
     [(0, \<lparr>fecha = 1, gasolina_regular = Some 10, gasolina_superior = None,
           diesel_alto_azufre = Some 5\<rparr>),
      (1, \<lparr>fecha = 2, gasolina_regular = Some 20, gasolina_superior = Some 1200,
           diesel_alto_azufre = None\<rparr>)] ''importacion'' =
     [\<lparr>fecha = 1, producto = ''regular'', barriles = Some 10, origen = ''importacion''\<rparr>,
      \<lparr>fecha = 2, producto = ''regular'', barriles = Some 20, origen = ''importacion''\<rparr>,
      \<lparr>fecha = 1, producto = ''superior'', barriles = None, origen = ''importacion''\<rparr>,
      \<lparr>fecha = 2, producto = ''superior'', barriles = Some 1200, origen = ''importacion''\<rparr>,
      \<lparr>fecha = 1, producto = ''diesel'', barriles = Some 5, origen = ''importacion''\<rparr>,
      \<lparr>fecha = 2, producto = ''diesel'', barriles = None, origen = ''importacion''\<rparr>]"
  by (subst wide_to_long_rows[THEN conjunct1]) simp

section \<open>The cleaner keeps the rows whose date parses\<close>

lemma header_hoja_ejemplo: "detecta_header cruda_hoja_ejemplo = Inr 2"
  by (simp add: evalua cruda_hoja_ejemplo_def)

lemma normaliza_hoja_ejemplo:
  "map normaliza_col (columns tabla_hoja_ejemplo) =
     [Str ''fecha'', Str ''gasolina regular'', Str ''gasolina super 95'',
      Str ''diesel alto azufre'']"
  by (simp add: evalua tabla_hoja_ejemplo_def)

lemma columnas_hoja_ejemplo:
  "map renombra_col (map normaliza_col (columns tabla_hoja_ejemplo)) =
     [Str ''fecha'', Str ''gasolina regular'', Str ''gasolina superior'',
      Str ''diesel alto azufre'']"
  unfolding normaliza_hoja_ejemplo by (simp add: renombra_def startswith_def)

lemma carga_y_limpia_hoja_ejemplo:
  "carga_y_limpia_hoja pandas_ejemplo hoja_ejemplo = Inr salida_ejemplo"
proof -
  have s: "list_all es_str (map normaliza_col (columns tabla_hoja_ejemplo))"
    unfolding normaliza_hoja_ejemplo by simp
  have f: "faltan requeridas
      (map renombra_col (map normaliza_col (columns tabla_hoja_ejemplo))) = []"
    unfolding columnas_hoja_ejemplo by (simp add: faltan_def requeridas_def)
  have d: "\<not> duplicadas requeridas
      (map renombra_col (map normaliza_col (columns tabla_hoja_ejemplo)))"
    unfolding columnas_hoja_ejemplo by (simp add: duplicadas_def requeridas_def)
  have "carga_y_limpia_hoja pandas_ejemplo hoja_ejemplo =
      Inr (map (numeros_hoja pandas_ejemplo) (ordena (filas_con_fecha pandas_ejemplo
        (selecciona_hoja (map renombra_col (map normaliza_col (columns tabla_hoja_ejemplo)))
           (filas tabla_hoja_ejemplo)))))"
    unfolding carga_y_limpia_hoja_def
    by (simp add: hoja_ejemplo_def header_hoja_ejemplo s f d Let_def del: map_map)
  also have "\<dots> = Inr salida_ejemplo"
    unfolding columnas_hoja_ejemplo
    by (simp add: evalua tabla_hoja_ejemplo_def salida_ejemplo_def)
  finally show ?thesis .
qed

lemma map_snd_filter_snd:
  "map snd (filter (\<lambda>(i, v). P v) xs) = filter P (map snd xs)"
  by (induction xs) auto

lemma map_snd_filas_con_fecha:
  "map snd (filas_con_fecha pd rows) =
     map (\<lambda>(f, v). (the (to_datetime pd f), v))
       (filter (\<lambda>(f, v). to_datetime pd f \<noteq> None) (map snd rows))"
  unfolding filas_con_fecha_filter by (induction rows) auto

lemma map_snd_selecciona_hoja:
  "map snd (selecciona_hoja cols rows) =
     map (\<lambda>row. (columna cols ''fecha'' row, columna cols ''gasolina regular'' row,
                  columna cols ''gasolina superior'' row,
                  columna cols ''diesel alto azufre'' row)) rows"
  by (simp add: selecciona_hoja_def)

lemma map_snd_numeros_hoja:
  "map snd (map (numeros_hoja pd) rows) =
     map (\<lambda>(t, r, s, d). \<lparr>fecha = t, gasolina_regular = limpia_numero pd r,
                           gasolina_superior = limpia_numero pd s,
                           diesel_alto_azufre = limpia_numero pd d\<rparr>) (map snd rows)"
  by (simp add: numeros_hoja_def case_prod_beta comp_def)

lemma limpia_numero_guiones: "limpia_numero pd (Str ''--'') = None"
  by (simp add: limpia_numero_def astype_str_def limpia_texto_def replace.simps
        startswith_def to_numeric_def)

lemma mset_carga_y_limpia_hoja:
  assumes "out = map (numeros_hoja pd) (ordena (filas_con_fecha pd
             (selecciona_hoja cols rows)))"
  shows "mset (map snd out) =
     image_mset
       (\<lambda>row. \<lparr>fecha = the (to_datetime pd (columna cols ''fecha'' row)),
                gasolina_regular = limpia_numero pd (columna cols ''gasolina regular'' row),
                gasolina_superior = limpia_numero pd (columna cols ''gasolina superior'' row),
                diesel_alto_azufre =
                  limpia_numero pd (columna cols ''diesel alto azufre'' row)\<rparr>)
       (filter_mset (\<lambda>row. to_datetime pd (columna cols ''fecha'' row) \<noteq> None)
          (mset rows))"
proof -
  let ?g = "\<lambda>(t, r, s, d). \<lparr>fecha = t, gasolina_regular = limpia_numero pd r,
       gasolina_superior = limpia_numero pd s, diesel_alto_azufre = limpia_numero pd d\<rparr>"
  let ?X = "filas_con_fecha pd (selecciona_hoja cols rows)"
  have "mset (map snd out) = image_mset ?g (mset (map snd (ordena ?X)))"
    unfolding assms map_snd_numeros_hoja by (simp only: mset_map)
  also have "\<dots> = image_mset ?g (mset (map snd ?X))"
    by (simp only: mset_snd_ordena)
  finally show ?thesis
    unfolding map_snd_filas_con_fecha map_snd_selecciona_hoja
    by (simp add: filter_map comp_def case_prod_beta multiset.map_comp flip: mset_filter)
qed

lemma carga_y_limpia_hoja_ok_iff:
  "(\<exists>out. carga_y_limpia_hoja pd xls = Inr out) \<longleftrightarrow>
     (\<exists>h. detecta_header (cruda xls) = Inr h
        \<and> list_all es_str (map normaliza_col (columns (con_header xls h)))
        \<and> faltan requeridas
             (map renombra_col (map normaliza_col (columns (con_header xls h)))) = []
        \<and> \<not> duplicadas requeridas
             (map renombra_col (map normaliza_col (columns (con_header xls h)))))"
  unfolding carga_y_limpia_hoja_def Let_def
  by (auto split: sum.splits if_splits)

text \<open>
  Claim C4. For every input sheet, the cleaner drops from its output exactly the rows
  whose date cell does not parse as a date. A row with a valid date and a value cell
  that does not parse as a number, such as the placeholder \<open>--\<close>, is kept, with that
  cell as a missing value: the row is not dropped and the run is not aborted, whatever
  the cells of the sheet hold.
\<close>

theorem carga_y_limpia_hoja_keeps_dated_rows:
  assumes "carga_y_limpia_hoja pd xls = Inr out"
  shows "(\<exists>h. detecta_header (cruda xls) = Inr h \<and>
           (let df = con_header xls h;
                cols = map renombra_col (map normaliza_col (columns df))
            in mset (map snd out) =
                 image_mset
                   (\<lambda>row. \<lparr>fecha = the (to_datetime pd (columna cols ''fecha'' row)),
                      gasolina_regular =
                        limpia_numero pd (columna cols ''gasolina regular'' row),
                      gasolina_superior =
                        limpia_numero pd (columna cols ''gasolina superior'' row),
                      diesel_alto_azufre =
                        limpia_numero pd (columna cols ''diesel alto azufre'' row)\<rparr>)
                   (filter_mset
                      (\<lambda>row. to_datetime pd (columna cols ''fecha'' row) \<noteq> None)
                      (mset (filas df)))))
         \<and> limpia_numero pd (Str ''--'') = None
         \<and> (\<forall>pd' rows'. \<exists>out'.
               carga_y_limpia_hoja pd'
                 (xls\<lparr>con_header := \<lambda>k. (con_header xls k)\<lparr>filas := rows'\<rparr>\<rparr>) = Inr out')"
proof -
  from assms obtain h where h: "detecta_header (cruda xls) = Inr h"
    and s: "list_all es_str (map normaliza_col (columns (con_header xls h)))"
    and f: "faltan requeridas
              (map renombra_col (map normaliza_col (columns (con_header xls h)))) = []"
    and d: "\<not> duplicadas requeridas
              (map renombra_col (map normaliza_col (columns (con_header xls h))))"
    and out: "out = map (numeros_hoja pd) (ordena (filas_con_fecha pd
           (selecciona_hoja (map renombra_col (map normaliza_col (columns (con_header xls h))))
              (filas (con_header xls h)))))"
    by (rule carga_y_limpia_hoja_Inr)
  have a: "\<exists>h. detecta_header (cruda xls) = Inr h \<and>
           (let df = con_header xls h;
                cols = map renombra_col (map normaliza_col (columns df))
            in mset (map snd out) =
                 image_mset
                   (\<lambda>row. \<lparr>fecha = the (to_datetime pd (columna cols ''fecha'' row)),
                      gasolina_regular =
                        limpia_numero pd (columna cols ''gasolina regular'' row),
                      gasolina_superior =
                        limpia_numero pd (columna cols ''gasolina superior'' row),
                      diesel_alto_azufre =
                        limpia_numero pd (columna cols ''diesel alto azufre'' row)\<rparr>)
                   (filter_mset
                      (\<lambda>row. to_datetime pd (columna cols ''fecha'' row) \<noteq> None)
                      (mset (filas df))))"
    unfolding Let_def using h mset_carga_y_limpia_hoja[OF out] by blast
  have c: "\<exists>out'. carga_y_limpia_hoja pd'
             (xls\<lparr>con_header := \<lambda>k. (con_header xls k)\<lparr>filas := rows'\<rparr>\<rparr>) = Inr out'"
    for pd' rows'
    unfolding carga_y_limpia_hoja_ok_iff using h s f d by auto
  from a c limpia_numero_guiones show ?thesis by blast
qed

theorem carga_y_limpia_hoja_keeps_dated_rows_witness:
  "carga_y_limpia_hoja pandas_ejemplo hoja_ejemplo = Inr salida_ejemplo
   \<and> (\<exists>h. detecta_header (cruda hoja_ejemplo) = Inr h \<and>
           (let df = con_header hoja_ejemplo h;
                cols = map renombra_col (map normaliza_col (columns df))
            in mset (map snd salida_ejemplo) =
                 image_mset
                   (\<lambda>row. \<lparr>fecha = the (to_datetime pandas_ejemplo (columna cols ''fecha'' row)),
                      gasolina_regular =
                        limpia_numero pandas_ejemplo (columna cols ''gasolina regular'' row),
                      gasolina_superior =
                        limpia_numero pandas_ejemplo (columna cols ''gasolina superior'' row),
                      diesel_alto_azufre =
                        limpia_numero pandas_ejemplo
                          (columna cols ''diesel alto azufre'' row)\<rparr>)
                   (filter_mset
                      (\<lambda>row. to_datetime pandas_ejemplo (columna cols ''fecha'' row) \<noteq> None)
                      (mset (filas df)))))
   \<and> length salida_ejemplo = 3 \<and> length (filas (con_header hoja_ejemplo 2)) = 5"
  using carga_y_limpia_hoja_keeps_dated_rows[OF carga_y_limpia_hoja_ejemplo]
    carga_y_limpia_hoja_ejemplo
  by (simp add: salida_ejemplo_def hoja_ejemplo_def tabla_hoja_ejemplo_def)

section \<open>The invariant of the cleaned tables\<close>

lemma carga_y_limpia_hoja_repetida:
  "carga_y_limpia_hoja pandas_ejemplo hoja_repetida = Inr salida_repetida"
proof -
  have h: "detecta_header (cruda hoja_repetida) = Inr 0"
    by (simp add: evalua hoja_repetida_def)
  have n: "map normaliza_col (columns (con_header hoja_repetida 0)) =
     [Str ''fecha'', Str ''gasolina regular'', Str ''gasolina superior'',
      Str ''diesel alto azufre'']"
    by (simp add: evalua hoja_repetida_def)
  have c: "map renombra_col (map normaliza_col (columns (con_header hoja_repetida 0))) =
     [Str ''fecha'', Str ''gasolina regular'', Str ''gasolina superior'',
      Str ''diesel alto azufre'']"
    unfolding n by (simp add: renombra_def startswith_def)
  have s: "list_all es_str (map normaliza_col (columns (con_header hoja_repetida 0)))"
    unfolding n by simp
  have f: "faltan requeridas
      (map renombra_col (map normaliza_col (columns (con_header hoja_repetida 0)))) = []"
    unfolding c by (simp add: faltan_def requeridas_def)
  have d: "\<not> duplicadas requeridas
      (map renombra_col (map normaliza_col (columns (con_header hoja_repetida 0))))"
    unfolding c by (simp add: duplicadas_def requeridas_def)
  have "carga_y_limpia_hoja pandas_ejemplo hoja_repetida =
      Inr (map (numeros_hoja pandas_ejemplo) (ordena (filas_con_fecha pandas_ejemplo
        (selecciona_hoja
           (map renombra_col (map normaliza_col (columns (con_header hoja_repetida 0))))
           (filas (con_header hoja_repetida 0))))))"
    unfolding carga_y_limpia_hoja_def
    by (simp add: h s f d Let_def del: map_map)
  also have "\<dots> = Inr salida_repetida"
    unfolding c
    by (simp add: evalua hoja_repetida_def salida_repetida_def)
  finally show ?thesis .
qed

lemma map_snd_selecciona_2025:
  "map snd (selecciona_2025 cols rows) =
     map (\<lambda>row. (columna cols ''fecha'' row, columna cols ''gasolina regular'' row,
                  columna cols ''gasolina superior'' row,
                  columna cols ''diesel bajo azufre'' row,
                  columna cols ''diesel ultra bajo azufre'' row)) rows"
  by (simp add: selecciona_2025_def)

lemma length_filas_con_fecha:
  "length (filas_con_fecha pd rows) =
     length (filter (\<lambda>fv. to_datetime pd (fst fv) \<noteq> None) (map snd rows))"
  unfolding filas_con_fecha_filter by (induction rows) auto

lemma invariante_ordena:
  assumes "map (fecha \<circ> snd) out = map (\<lambda>(i, t, v). t) (ordena X)"
    and "map fst out = map fst (ordena X)"
  shows "sorted (map (fecha \<circ> snd) out) \<and> map fst out = [0..<length out]
         \<and> (sorted_wrt (<) (map (fecha \<circ> snd) out) \<longleftrightarrow> distinct (map (fecha \<circ> snd) out))
         \<and> length out = length X"
proof -
  have so: "sorted (map (fecha \<circ> snd) out)"
    unfolding assms(1) by (rule sorted_ordena)
  have len: "length out = length X"
    using arg_cong[OF assms(2), of length] by (simp add: length_ordena)
  have ix: "map fst out = [0..<length out]"
    unfolding assms(2) map_fst_ordena len length_ordena ..
  from so len ix show ?thesis
    by (simp add: strict_sorted_iff)
qed

lemma length_validas_hoja:
  "length (filas_con_fecha pd (selecciona_hoja cols rows)) =
     length (filter (\<lambda>row. to_datetime pd (columna cols ''fecha'' row) \<noteq> None) rows)"
  unfolding length_filas_con_fecha map_snd_selecciona_hoja
  by (simp add: filter_map comp_def)

lemma length_validas_2025:
  "length (filas_con_fecha pd (selecciona_2025 cols rows)) =
     length (filter (\<lambda>row. to_datetime pd (columna cols ''fecha'' row) \<noteq> None) rows)"
  unfolding length_filas_con_fecha map_snd_selecciona_2025
  by (simp add: filter_map comp_def)

lemma invariante_hoja:
  assumes "carga_y_limpia_hoja pd xls = Inr out"
  shows "sorted (map (fecha \<circ> snd) out) \<and> map fst out = [0..<length out]
     \<and> (sorted_wrt (<) (map (fecha \<circ> snd) out) \<longleftrightarrow> distinct (map (fecha \<circ> snd) out))
     \<and> (\<exists>h. detecta_header (cruda xls) = Inr h \<and>
          (let df = con_header xls h;
               cols = map renombra_col (map normaliza_col (columns df))
           in length out =
                length (filter (\<lambda>row. to_datetime pd (columna cols ''fecha'' row) \<noteq> None)
                          (filas df))))"
proof -
  from assms obtain h where h: "detecta_header (cruda xls) = Inr h"
    and out: "out = map (numeros_hoja pd) (ordena (filas_con_fecha pd
           (selecciona_hoja (map renombra_col (map normaliza_col (columns (con_header xls h))))
              (filas (con_header xls h)))))"
    by (rule carga_y_limpia_hoja_Inr)
  let ?X = "filas_con_fecha pd
     (selecciona_hoja (map renombra_col (map normaliza_col (columns (con_header xls h))))
        (filas (con_header xls h)))"
  have "map (fecha \<circ> snd) out = map (\<lambda>(i, t, v). t) (ordena ?X)"
    and "map fst out = map fst (ordena ?X)"
    unfolding out by (rule fecha_numeros_hoja, rule fst_numeros_hoja)
  from invariante_ordena[OF this] h show ?thesis
    unfolding Let_def length_validas_hoja by blast
qed

lemma invariante_importacion:
  assumes "carga_y_limpia_importacion pd xls = Inr out"
  shows "sorted (map (fecha \<circ> snd) out) \<and> map fst out = [0..<length out]
     \<and> (sorted_wrt (<) (map (fecha \<circ> snd) out) \<longleftrightarrow> distinct (map (fecha \<circ> snd) out))
     \<and> (\<exists>h. detecta_header (cruda xls) = Inr h \<and>
          (let df = con_header xls h; cols = map normaliza_col (columns df)
           in length out =
                length (filter (\<lambda>row. to_datetime pd (columna cols ''fecha'' row) \<noteq> None)
                          (filas df))))"
proof -
  from assms obtain df where df: "limpia_2025 pd xls = Inr df"
    and out: "out = map (\<lambda>(i, row). (i, diesel_total row)) df"
    unfolding carga_y_limpia_importacion_Inr by blast
  from df obtain h where h: "detecta_header (cruda xls) = Inr h"
    and dfe: "df = map (numeros_2025 pd) (ordena (filas_con_fecha pd
           (selecciona_2025 (map normaliza_col (columns (con_header xls h)))
              (filas (con_header xls h)))))"
    by (rule limpia_2025_Inr)
  let ?X = "filas_con_fecha pd
     (selecciona_2025 (map normaliza_col (columns (con_header xls h)))
        (filas (con_header xls h)))"
  have "map (fecha \<circ> snd) out = map (\<lambda>(i, t, v). t) (ordena ?X)"
    unfolding out fecha_diesel_total unfolding dfe by (rule fecha_numeros_2025)
  moreover have "map fst out = map fst (ordena ?X)"
    unfolding out fst_diesel_total unfolding dfe by (rule fst_numeros_2025)
  ultimately show ?thesis
    using invariante_ordena[of out ?X] h
    unfolding Let_def length_validas_2025 by blast
qed

text \<open>
  Claim C6, as amended. Every table a cleaner produces has one row for each row of the
  sheet whose date is valid, the rows in ascending order of date, strictly ascending
  exactly when no date is repeated among them (rows that share a date are all kept),
  and the row indices renumbered 0, 1, 2, ... Every value column holds a number or the
  missing marker: that is the type \<open>rat option\<close> of the fields.
\<close>

theorem cleaned_table_invariant:
  "(carga_y_limpia_hoja pd xls = Inr out \<longrightarrow>
      sorted (map (fecha \<circ> snd) out) \<and> map fst out = [0..<length out]
      \<and> (sorted_wrt (<) (map (fecha \<circ> snd) out) \<longleftrightarrow> distinct (map (fecha \<circ> snd) out))
      \<and> (\<exists>h. detecta_header (cruda xls) = Inr h \<and>
           (let df = con_header xls h;
                cols = map renombra_col (map normaliza_col (columns df))
            in length out =
                 length (filter (\<lambda>row. to_datetime pd (columna cols ''fecha'' row) \<noteq> None)
                           (filas df)))))
   \<and> (carga_y_limpia_importacion pd xls = Inr out' \<longrightarrow>
      sorted (map (fecha \<circ> snd) out') \<and> map fst out' = [0..<length out']
      \<and> (sorted_wrt (<) (map (fecha \<circ> snd) out') \<longleftrightarrow> distinct (map (fecha \<circ> snd) out'))
      \<and> (\<exists>h. detecta_header (cruda xls) = Inr h \<and>
           (let df = con_header xls h; cols = map normaliza_col (columns df)
            in length out' =
                 length (filter (\<lambda>row. to_datetime pd (columna cols ''fecha'' row) \<noteq> None)
                           (filas df)))))"
  using invariante_hoja[of pd xls out] invariante_importacion[of pd xls out'] by blast

lemma carga_y_limpia_importacion_ejemplo:
  "carga_y_limpia_importacion pandas_ejemplo hoja_2025_ejemplo = Inr salida_2025_ejemplo"
  unfolding carga_y_limpia_importacion_Inr
  by (simp add: limpia_2025_ejemplo diesel_total_def fillna_def salida_2025_ejemplo_def)

theorem cleaned_table_invariant_witness:
  "carga_y_limpia_hoja pandas_ejemplo hoja_ejemplo = Inr salida_ejemplo
   \<and> sorted (map (fecha \<circ> snd) salida_ejemplo)
   \<and> map fst salida_ejemplo = [0..<length salida_ejemplo]
   \<and> sorted_wrt (<) (map (fecha \<circ> snd) salida_ejemplo)
   \<and> carga_y_limpia_importacion pandas_ejemplo hoja_2025_ejemplo = Inr salida_2025_ejemplo
   \<and> sorted (map (fecha \<circ> snd) salida_2025_ejemplo)
   \<and> map fst salida_2025_ejemplo = [0..<length salida_2025_ejemplo]
   \<and> sorted_wrt (<) (map (fecha \<circ> snd) salida_2025_ejemplo)"
proof -
  have "distinct (map (fecha \<circ> snd) salida_ejemplo)"
    and "distinct (map (fecha \<circ> snd) salida_2025_ejemplo)"
    by (simp_all add: salida_ejemplo_def salida_2025_ejemplo_def)
  with cleaned_table_invariant[of pandas_ejemplo hoja_ejemplo salida_ejemplo
      "[]::(nat \<times> fila_imp) list"]
    cleaned_table_invariant[of pandas_ejemplo hoja_2025_ejemplo "[]::(nat \<times> fila_hoja) list"
      salida_2025_ejemplo]
    carga_y_limpia_hoja_ejemplo carga_y_limpia_importacion_ejemplo
  show ?thesis by blast
qed

theorem cleaned_table_repeated_date:
  "carga_y_limpia_hoja pandas_ejemplo hoja_repetida = Inr salida_repetida
   \<and> map (fecha \<circ> snd) salida_repetida = [1, 1]
   \<and> \<not> sorted_wrt (<) (map (fecha \<circ> snd) salida_repetida)"
  by (simp add: carga_y_limpia_hoja_repetida) (simp add: salida_repetida_def)

section \<open>The merge of the two cleaned tables\<close>

lemma length_pares: "length (concat (map (\<lambda>x. map (g x) ys) xs)) = length xs * length ys"
  by (induction xs) auto

lemma length_grupo:
  "length (grupo xs ys) =
     (if ys = [] then length xs else if xs = [] then length ys else length xs * length ys)"
  by (simp add: grupo_def length_pares)

lemma set_grupo:
  "set (grupo xs ys) =
     (if ys = [] then solo_imp ` set xs
      else if xs = [] then solo_con ` set ys
      else {imp_y_con x y | x y. x \<in> set xs \<and> y \<in> set ys})"
  by (auto simp: grupo_def)

lemma fecha_grupo:
  assumes "\<forall>x \<in> set xs. fecha x = k" and "\<forall>y \<in> set ys. fecha y = k"
    and "row \<in> set (grupo xs ys)"
  shows "fecha row = k"
  using assms unfolding set_grupo
  by (auto simp: solo_imp_def solo_con_def imp_y_con_def split: if_splits)

lemma filter_concat_grupos:
  assumes "distinct ks" and "\<And>k' row. k' \<in> set ks \<Longrightarrow> row \<in> set (G k') \<Longrightarrow> f row = k'"
  shows "filter (\<lambda>row. f row = k) (concat (map G ks)) = (if k \<in> set ks then G k else [])"
  using assms
proof (induction ks)
  case Nil
  then show ?case by simp
next
  case (Cons a ks)
  have rest: "filter (\<lambda>row. f row = k) (concat (map G ks)) = (if k \<in> set ks then G k else [])"
    using Cons by simp
  have here: "filter (\<lambda>row. f row = k) (G a) = (if k = a then G a else [])"
    using Cons.prems(2)[of a] by (auto simp: filter_empty_conv intro: filter_True)
  from Cons.prems(1) have "a \<notin> set ks" by simp
  with rest here show ?case by auto
qed

lemma count_list_length_filter: "count_list (map f xs) k = length (filter (\<lambda>x. f x = k) xs)"
  by (induction xs) auto

lemma claves_merge:
  "distinct (sort (remdups (map fecha imp @ map fecha con)))"
  "set (sort (remdups (map fecha imp @ map fecha con))) = fecha ` set imp \<union> fecha ` set con"
  by simp_all

lemma fecha_en_grupo:
  "row \<in> set (grupo (filter (\<lambda>x. fecha x = k) imp) (filter (\<lambda>y. fecha y = k) con))
     \<Longrightarrow> fecha row = k"
  by (rule fecha_grupo[of "filter (\<lambda>x. fecha x = k) imp" k "filter (\<lambda>y. fecha y = k) con"])
     auto

lemma filter_merge_outer:
  "filter (\<lambda>row. fecha row = k) (merge_outer imp con) =
     grupo (filter (\<lambda>x. fecha x = k) imp) (filter (\<lambda>y. fecha y = k) con)"
proof -
  let ?G = "\<lambda>k. grupo (filter (\<lambda>x. fecha x = k) imp) (filter (\<lambda>y. fecha y = k) con)"
  have "filter (\<lambda>row. fecha row = k)
          (concat (map ?G (sort (remdups (map fecha imp @ map fecha con))))) =
      (if k \<in> set (sort (remdups (map fecha imp @ map fecha con))) then ?G k else [])"
    by (rule filter_concat_grupos) (simp, rule fecha_en_grupo)
  then have "filter (\<lambda>row. fecha row = k) (merge_outer imp con) =
      (if k \<in> fecha ` set imp \<union> fecha ` set con then ?G k else [])"
    unfolding merge_outer_def by (simp only: claves_merge)
  moreover have "?G k = []" if "k \<notin> fecha ` set imp \<union> fecha ` set con"
  proof -
    from that have "filter (\<lambda>x. fecha x = k) imp = []" "filter (\<lambda>y. fecha y = k) con = []"
      by (auto simp: filter_empty_conv)
    then show ?thesis by (simp add: grupo_def)
  qed
  ultimately show ?thesis by auto
qed

lemma mset_combina: "mset (combina imp con) = mset (merge_outer imp con)"
  by (simp add: combina_def sort_values_def)

lemma filter_combina_length:
  "length (filter (\<lambda>row. fecha row = k) (combina imp con)) =
     length (grupo (filter (\<lambda>x. fecha x = k) imp) (filter (\<lambda>y. fecha y = k) con))"
proof -
  have "length (filter (\<lambda>row. fecha row = k) (combina imp con))
      = size (filter_mset (\<lambda>row. fecha row = k) (mset (combina imp con)))"
    by (metis mset_filter size_mset)
  also have "\<dots> = length (filter (\<lambda>row. fecha row = k) (merge_outer imp con))"
    unfolding mset_combina by (metis mset_filter size_mset)
  finally show ?thesis unfolding filter_merge_outer .
qed

lemma set_combina:
  "set (combina imp con) =
     (\<Union>k \<in> fecha ` set imp \<union> fecha ` set con.
        set (grupo (filter (\<lambda>x. fecha x = k) imp) (filter (\<lambda>y. fecha y = k) con)))"
proof -
  have "set (combina imp con) = set (merge_outer imp con)"
    by (simp add: combina_def sort_values_def)
  also have "\<dots> = (\<Union>k \<in> set (sort (remdups (map fecha imp @ map fecha con))).
        set (grupo (filter (\<lambda>x. fecha x = k) imp) (filter (\<lambda>y. fecha y = k) con)))"
    unfolding merge_outer_def by (simp only: set_concat set_map) blast
  finally show ?thesis by (simp only: claves_merge)
qed

lemma distinct_count_list: "distinct xs \<longleftrightarrow> (\<forall>k. count_list xs k \<le> 1)"
proof (induction xs)
  case Nil
  show ?case by simp
next
  case (Cons x xs)
  show ?case
  proof
    assume d: "distinct (x # xs)"
    then have "count_list xs x = 0" by (simp add: count_list_0_iff)
    with d Cons show "\<forall>k. count_list (x # xs) k \<le> 1" by auto
  next
    assume c: "\<forall>k. count_list (x # xs) k \<le> 1"
    then have "count_list (x # xs) x \<le> 1" by blast
    then have "x \<notin> set xs" by (simp add: count_list_0_iff)
    moreover have "count_list xs k \<le> 1" for k
      using c[rule_format, of k] by (simp split: if_splits)
    ultimately show "distinct (x # xs)" using Cons by simp
  qed
qed

lemma count_combina:
  "count_list (map fecha (combina imp con)) k =
     (let a = count_list (map fecha imp) k; b = count_list (map fecha con) k
      in if b = 0 then a else if a = 0 then b else a * b)"
  unfolding count_list_length_filter filter_combina_length length_grupo Let_def
  by simp

lemma set_combina_filas:
  "set (combina imp con) =
     {imp_y_con x y | x y. x \<in> set imp \<and> y \<in> set con \<and> fecha x = fecha y}
     \<union> {solo_imp x | x. x \<in> set imp \<and> fecha x \<notin> fecha ` set con}
     \<union> {solo_con y | y. y \<in> set con \<and> fecha y \<notin> fecha ` set imp}"
  (is "?L = ?R")
proof (rule set_eqI)
  fix row
  show "row \<in> ?L \<longleftrightarrow> row \<in> ?R"
  proof
    assume "row \<in> ?L"
    then obtain k where k: "k \<in> fecha ` set imp \<union> fecha ` set con"
      and row: "row \<in> set (grupo (filter (\<lambda>x. fecha x = k) imp)
                               (filter (\<lambda>y. fecha y = k) con))"
      unfolding set_combina by blast
    show "row \<in> ?R"
    proof (cases "filter (\<lambda>y. fecha y = k) con = []")
      case True
      then have "k \<notin> fecha ` set con" by (auto simp: filter_empty_conv image_iff)
      moreover from row True obtain x where "x \<in> set imp" "fecha x = k" "row = solo_imp x"
        unfolding set_grupo by auto
      ultimately show ?thesis by blast
    next
      case False
      note ys = this
      show ?thesis
      proof (cases "filter (\<lambda>x. fecha x = k) imp = []")
        case True
        then have "k \<notin> fecha ` set imp" by (auto simp: filter_empty_conv image_iff)
        moreover from row True ys obtain y where "y \<in> set con" "fecha y = k"
          "row = solo_con y"
          unfolding set_grupo by auto
        ultimately show ?thesis by blast
      next
        case False
        with row ys obtain x y where "x \<in> set imp" "fecha x = k" "y \<in> set con"
          "fecha y = k" "row = imp_y_con x y"
          unfolding set_grupo by auto
        then have "x \<in> set imp \<and> y \<in> set con \<and> fecha x = fecha y \<and> row = imp_y_con x y"
          by simp
        then show ?thesis by blast
      qed
    qed
  next
    assume "row \<in> ?R"
    then consider x y where "x \<in> set imp" "y \<in> set con" "fecha x = fecha y"
        "row = imp_y_con x y"
      | x where "x \<in> set imp" "fecha x \<notin> fecha ` set con" "row = solo_imp x"
      | y where "y \<in> set con" "fecha y \<notin> fecha ` set imp" "row = solo_con y"
      by blast
    then show "row \<in> ?L"
    proof cases
      case 1
      then have "row \<in> set (grupo (filter (\<lambda>x'. fecha x' = fecha x) imp)
                                 (filter (\<lambda>y'. fecha y' = fecha x) con))"
        unfolding set_grupo by (auto simp: filter_empty_conv image_iff)
      with 1 show ?thesis unfolding set_combina by blast
    next
      case 2
      then have "filter (\<lambda>y'. fecha y' = fecha x) con = []"
        by (auto simp: filter_empty_conv image_iff)
      with 2 have "row \<in> set (grupo (filter (\<lambda>x'. fecha x' = fecha x) imp)
                                 (filter (\<lambda>y'. fecha y' = fecha x) con))"
        unfolding set_grupo by auto
      with 2 show ?thesis unfolding set_combina by blast
    next
      case 3
      then have "filter (\<lambda>x'. fecha x' = fecha y) imp = []"
        by (auto simp: filter_empty_conv image_iff)
      moreover from 3 have "filter (\<lambda>y'. fecha y' = fecha y) con \<noteq> []"
        by (auto simp: filter_empty_conv image_iff)
      ultimately have "row \<in> set (grupo (filter (\<lambda>x'. fecha x' = fecha y) imp)
                                 (filter (\<lambda>y'. fecha y' = fecha y) con))"
        unfolding set_grupo using 3 by auto
      with 3 show ?thesis unfolding set_combina by blast
    qed
  qed
qed

lemma fechas_combina:
  "fecha ` set (combina imp con) = fecha ` set imp \<union> fecha ` set con"
proof (rule set_eqI)
  fix k
  let ?a = "count_list (map fecha imp) k" and ?b = "count_list (map fecha con) k"
  have "k \<in> fecha ` set (combina imp con) \<longleftrightarrow> count_list (map fecha (combina imp con)) k \<noteq> 0"
    by (simp add: count_list_0_iff)
  also have "\<dots> \<longleftrightarrow> ?a \<noteq> 0 \<or> ?b \<noteq> 0"
    unfolding count_combina Let_def by simp
  also have "\<dots> \<longleftrightarrow> k \<in> fecha ` set imp \<union> fecha ` set con"
    by (simp add: count_list_0_iff)
  finally show "k \<in> fecha ` set (combina imp con) \<longleftrightarrow> k \<in> fecha ` set imp \<union> fecha ` set con" .
qed

lemma distinct_combina:
  assumes "distinct (map fecha imp)" and "distinct (map fecha con)"
  shows "distinct (map fecha (combina imp con))"
proof -
  have "count_list (map fecha (combina imp con)) k \<le> 1" for k
  proof -
    from assms have "count_list (map fecha imp) k \<le> 1" "count_list (map fecha con) k \<le> 1"
      unfolding distinct_count_list by blast+
    then have "count_list (map fecha imp) k = 0 \<or> count_list (map fecha imp) k = 1"
      and "count_list (map fecha con) k = 0 \<or> count_list (map fecha con) k = 1"
      by arith+
    then show ?thesis
      unfolding count_combina Let_def by auto
  qed
  then show ?thesis unfolding distinct_count_list by blast
qed

lemma faltantes_combina:
  assumes "row \<in> set (combina imp con)"
  shows "(fecha row \<notin> fecha ` set con \<longrightarrow>
           Regular_Con row = None \<and> Superior_Con row = None \<and> Diesel_Con row = None)
        \<and> (fecha row \<notin> fecha ` set imp \<longrightarrow>
           Regular_Imp row = None \<and> Superior_Imp row = None \<and> Diesel_Imp row = None)"
proof -
  from assms consider x y where "x \<in> set imp" "y \<in> set con" "fecha x = fecha y"
        "row = imp_y_con x y"
    | x where "x \<in> set imp" "fecha x \<notin> fecha ` set con" "row = solo_imp x"
    | y where "y \<in> set con" "fecha y \<notin> fecha ` set imp" "row = solo_con y"
    unfolding set_combina_filas by blast
  then show ?thesis
  proof cases
    case 1
    then have "fecha row = fecha x" "fecha row = fecha y" by (simp_all add: imp_y_con_def)
    with 1 have "fecha row \<in> fecha ` set imp" "fecha row \<in> fecha ` set con"
      by (metis imageI)+
    then show ?thesis by simp
  next
    case 2
    then have "fecha row \<in> fecha ` set imp" by (simp add: solo_imp_def)
    with 2 show ?thesis by (simp add: solo_imp_def)
  next
    case 3
    then have "fecha row \<in> fecha ` set con" by (simp add: solo_con_def)
    with 3 show ?thesis by (simp add: solo_con_def)
  qed
qed

text \<open>
  Claim C2, as amended. The merger is a full outer join on the date: every date of
  either input appears in the combined table, once for each pair of an import row and
  a consumption row of that date (once for each row of one side when the other side
  has none), hence exactly once when neither input repeats it. The columns of each side
  keep their origin-suffixed names, a date of one input only has missing values in the
  columns of the other side, and the rows are in ascending order of date.
\<close>

theorem combina_outer_join:
  "fecha ` set (combina imp con) = fecha ` set imp \<union> fecha ` set con
   \<and> sorted (map fecha (combina imp con))
   \<and> count_list (map fecha (combina imp con)) k =
       (let a = count_list (map fecha imp) k; b = count_list (map fecha con) k
        in if b = 0 then a else if a = 0 then b else a * b)
   \<and> (distinct (map fecha imp) \<and> distinct (map fecha con) \<longrightarrow>
        distinct (map fecha (combina imp con)))
   \<and> set (combina imp con) =
       {imp_y_con x y | x y. x \<in> set imp \<and> y \<in> set con \<and> fecha x = fecha y}
       \<union> {solo_imp x | x. x \<in> set imp \<and> fecha x \<notin> fecha ` set con}
       \<union> {solo_con y | y. y \<in> set con \<and> fecha y \<notin> fecha ` set imp}
   \<and> (\<forall>row \<in> set (combina imp con).
        (fecha row \<notin> fecha ` set con \<longrightarrow>
           Regular_Con row = None \<and> Superior_Con row = None \<and> Diesel_Con row = None)
        \<and> (fecha row \<notin> fecha ` set imp \<longrightarrow>
           Regular_Imp row = None \<and> Superior_Imp row = None \<and> Diesel_Imp row = None))"
proof (intro conjI)
  show "fecha ` set (combina imp con) = fecha ` set imp \<union> fecha ` set con"
    by (rule fechas_combina)
  show "sorted (map fecha (combina imp con))"
    by (simp add: combina_def sort_values_def)
  show "count_list (map fecha (combina imp con)) k =
       (let a = count_list (map fecha imp) k; b = count_list (map fecha con) k
        in if b = 0 then a else if a = 0 then b else a * b)"
    by (rule count_combina)
  show "distinct (map fecha imp) \<and> distinct (map fecha con) \<longrightarrow>
        distinct (map fecha (combina imp con))"
    using distinct_combina by blast
  show "set (combina imp con) =
       {imp_y_con x y | x y. x \<in> set imp \<and> y \<in> set con \<and> fecha x = fecha y}
       \<union> {solo_imp x | x. x \<in> set imp \<and> fecha x \<notin> fecha ` set con}
       \<union> {solo_con y | y. y \<in> set con \<and> fecha y \<notin> fecha ` set imp}"
    by (rule set_combina_filas)
  show "\<forall>row \<in> set (combina imp con).
        (fecha row \<notin> fecha ` set con \<longrightarrow>
           Regular_Con row = None \<and> Superior_Con row = None \<and> Diesel_Con row = None)
        \<and> (fecha row \<notin> fecha ` set imp \<longrightarrow>
           Regular_Imp row = None \<and> Superior_Imp row = None \<and> Diesel_Imp row = None)"
    using faltantes_combina by blast
qed

lemma combina_ejemplo:
  "combina imp_ejemplo con_ejemplo =
     [\<lparr>fecha = 1, Regular_Imp = Some 10, Superior_Imp = None, Diesel_Imp = Some 5,
       Regular_Con = None, Superior_Con = None, Diesel_Con = None\<rparr>,
      \<lparr>fecha = 2, Regular_Imp = Some 20, Superior_Imp = Some 1200, Diesel_Imp = None,
       Regular_Con = Some 7, Superior_Con = Some 8, Diesel_Con = None\<rparr>,
      \<lparr>fecha = 3, Regular_Imp = None, Superior_Imp = None, Diesel_Imp = None,
       Regular_Con = Some 9, Superior_Con = None, Diesel_Con = Some 4\<rparr>]"
  by (simp add: combina_def sort_values_def merge_outer_def grupo_def solo_imp_def
        solo_con_def imp_y_con_def imp_ejemplo_def con_ejemplo_def)

theorem combina_outer_join_witness:
  "combina imp_ejemplo con_ejemplo =
     [\<lparr>fecha = 1, Regular_Imp = Some 10, Superior_Imp = None, Diesel_Imp = Some 5,
       Regular_Con = None, Superior_Con = None, Diesel_Con = None\<rparr>,
      \<lparr>fecha = 2, Regular_Imp = Some 20, Superior_Imp = Some 1200, Diesel_Imp = None,
       Regular_Con = Some 7, Superior_Con = Some 8, Diesel_Con = None\<rparr>,
      \<lparr>fecha = 3, Regular_Imp = None, Superior_Imp = None, Diesel_Imp = None,
       Regular_Con = Some 9, Superior_Con = None, Diesel_Con = Some 4\<rparr>]
   \<and> distinct (map fecha imp_ejemplo) \<and> distinct (map fecha con_ejemplo)
   \<and> distinct (map fecha (combina imp_ejemplo con_ejemplo))
   \<and> fecha (hd (combina imp_ejemplo con_ejemplo)) \<notin> fecha ` set con_ejemplo
   \<and> Regular_Con (hd (combina imp_ejemplo con_ejemplo)) = None
   \<and> Superior_Con (hd (combina imp_ejemplo con_ejemplo)) = None
   \<and> Diesel_Con (hd (combina imp_ejemplo con_ejemplo)) = None"
proof -
  note inst = combina_outer_join[of imp_ejemplo con_ejemplo 1]
  have d: "distinct (map fecha imp_ejemplo) \<and> distinct (map fecha con_ejemplo)"
    by (simp add: imp_ejemplo_def con_ejemplo_def)
  with inst have dd: "distinct (map fecha (combina imp_ejemplo con_ejemplo))" by blast
  have m: "hd (combina imp_ejemplo con_ejemplo) \<in> set (combina imp_ejemplo con_ejemplo)"
    unfolding combina_ejemplo by simp
  have n: "fecha (hd (combina imp_ejemplo con_ejemplo)) \<notin> fecha ` set con_ejemplo"
    unfolding combina_ejemplo by (simp add: con_ejemplo_def)
  from inst m n have "Regular_Con (hd (combina imp_ejemplo con_ejemplo)) = None
    \<and> Superior_Con (hd (combina imp_ejemplo con_ejemplo)) = None
    \<and> Diesel_Con (hd (combina imp_ejemplo con_ejemplo)) = None"
    by blast
  with d dd n combina_ejemplo show ?thesis by blast
qed

theorem combina_repeated_date:
  "map fecha (combina (map snd salida_repetida) []) = [1, 1]
   \<and> count_list (map fecha (combina (map snd salida_repetida) [])) 1 = 2"
  by (simp add: combina_def sort_values_def merge_outer_def grupo_def solo_imp_def
        salida_repetida_def)

section \<open>The check of the required columns\<close>

lemma set_faltan: "set (faltan req cols) = {c \<in> set req. Str c \<notin> set cols}"
  by (auto simp: faltan_def)

lemma carga_y_limpia_importacion_faltantes:
  assumes "detecta_header (cruda xls) = Inr h"
    and "faltan requeridas_2025 (map normaliza_col (columns (con_header xls h))) \<noteq> []"
  shows "carga_y_limpia_importacion pd xls =
     Inl (MissingColumns
            (faltan requeridas_2025 (map normaliza_col (columns (con_header xls h)))))"
  using assms
  by (simp add: carga_y_limpia_importacion_def limpia_2025_def Let_def del: map_map)

lemma carga_y_limpia_hoja_faltantes:
  assumes "detecta_header (cruda xls) = Inr h"
    and "list_all es_str (map normaliza_col (columns (con_header xls h)))"
    and "faltan requeridas
           (map renombra_col (map normaliza_col (columns (con_header xls h)))) \<noteq> []"
  shows "carga_y_limpia_hoja pd xls =
     Inl (MissingColumns
            (faltan requeridas
               (map renombra_col (map normaliza_col (columns (con_header xls h))))))"
  using assms
  by (simp add: carga_y_limpia_hoja_def Let_def del: map_map)

lemma carga_y_limpia_hoja_no_str:
  assumes "detecta_header (cruda xls) = Inr h"
    and "\<not> list_all es_str (map normaliza_col (columns (con_header xls h)))"
  shows "carga_y_limpia_hoja pd xls = Inl AttributeError"
  using assms
  by (simp add: carga_y_limpia_hoja_def Let_def del: map_map)

text \<open>
  Claim C5. A sheet whose normalized columns lack required labels must make the cleaner
  fail with \<^const>\<open>MissingColumns\<close>, listing every absent label. On the sheet
  \<^const>\<open>hoja_con_numero\<close>, whose header holds the number 2024, the cleaner of
  \<^verbatim>\<open>excel_a_csv.py\<close> fails with \<^const>\<open>AttributeError\<close> instead, in the renaming loop and
  before the check; the cleaner of \<^verbatim>\<open>actualiza_datos_2025.py\<close>, which has no such loop,
  lists the absent labels of the same sheet.
\<close>

theorem carga_y_limpia_hoja_label_not_a_string:
  "carga_y_limpia_hoja pandas_ejemplo hoja_con_numero = Inl AttributeError
   \<and> carga_y_limpia_importacion pandas_ejemplo hoja_con_numero =
       Inl (MissingColumns
              [''gasolina superior'', ''diesel bajo azufre'', ''diesel ultra bajo azufre''])"
proof -
  have h: "detecta_header (cruda hoja_con_numero) = Inr 0"
    by (simp add: evalua hoja_con_numero_def)
  have n: "map normaliza_col (columns (con_header hoja_con_numero 0)) =
     [Str ''fecha'', Str ''gasolina regular'', Numero 2024]"
    by (simp add: evalua hoja_con_numero_def)
  have "\<not> list_all es_str (map normaliza_col (columns (con_header hoja_con_numero 0)))"
    unfolding n by simp
  with h have a: "carga_y_limpia_hoja pandas_ejemplo hoja_con_numero = Inl AttributeError"
    by (rule carga_y_limpia_hoja_no_str)
  have f: "faltan requeridas_2025 (map normaliza_col (columns (con_header hoja_con_numero 0)))
     = [''gasolina superior'', ''diesel bajo azufre'', ''diesel ultra bajo azufre'']"
    unfolding n by (simp add: faltan_def requeridas_2025_def)
  then have "faltan requeridas_2025
      (map normaliza_col (columns (con_header hoja_con_numero 0))) \<noteq> []"
    by simp
  with h have "carga_y_limpia_importacion pandas_ejemplo hoja_con_numero =
     Inl (MissingColumns
            (faltan requeridas_2025
               (map normaliza_col (columns (con_header hoja_con_numero 0)))))"
    by (rule carga_y_limpia_importacion_faltantes)
  with a show ?thesis unfolding f by simp
qed

end
